theory Spec2Isabelle
  imports Main "HOL-Library.Sublist"
begin

text \<open>
  A model of the content loader of the site's pop-frames: the notification center
  (\<^verbatim>\<open>GW.notificationCenter\<close>), the content types and the classification of links,
  the cache and the loader of \<^verbatim>\<open>Content\<close>, and the reference data of a local page
  with the helpers of \<^verbatim>\<open>misc.js\<close> it uses. JavaScript objects that are shared and
  changed are held in explicit stores, exceptions are values, and what the browser and
  other scripts provide is collected in an environment.
\<close>

section \<open>The notification center (GW.notificationCenter)\<close>

text \<open>
  \<^verbatim>\<open>GW.notificationCenter\<close> is an object whose property \<^verbatim>\<open>eventName\<close> is either
  null/undefined or an array of handler objects. A handler object has the members
  \<^verbatim>\<open>f\<close> (a function) and \<^verbatim>\<open>once\<close> (a boolean). Handler objects and arrays are
  compared and shared by reference, so both are modelled as references (natural numbers)
  into a store: \<open>arrays\<close> holds the contents of every array object, \<open>slots\<close> holds
  the array reference stored under each event name (\<open>None\<close> for null/undefined), and
  \<open>fresh\<close> is the next unused array reference. Event names range over property keys
  that are neither the name of a method of the object itself nor the name of a property
  it inherits (such as \<^verbatim>\<open>toString\<close>): under those names the object holds a function,
  not an array.
\<close>

record center =
  slots :: "string \<Rightarrow> nat option"
  arrays :: "nat \<Rightarrow> nat list"
  fresh :: nat

text \<open>
  The handler objects: the effect of calling \<^verbatim>\<open>handler.f()\<close> on the notification
  center (the function is supplied by the caller and may itself call the center),
  and the flag \<^verbatim>\<open>handler.once\<close>.
\<close>

record handlerObject =
  handler_f :: "center \<Rightarrow> center"
  handler_once :: bool

definition emptyCenter :: center where
  "emptyCenter = \<lparr>slots = (\<lambda>_. None), arrays = (\<lambda>_. []), fresh = 0\<rparr>"

text \<open>\<^verbatim>\<open>if (GW.notificationCenter[eventName] == null) GW.notificationCenter[eventName] = [ ];\<close>\<close>

definition ensureArray :: "string \<Rightarrow> center \<Rightarrow> nat \<times> center" where
  "ensureArray eventName nc =
     (case slots nc eventName of
        Some a \<Rightarrow> (a, nc)
      | None \<Rightarrow> (fresh nc,
                 nc\<lparr>slots := (slots nc)(eventName \<mapsto> fresh nc),
                    arrays := (arrays nc)(fresh nc := []),
                    fresh := Suc (fresh nc)\<rparr>))"

definition addHandlerForEvent :: "string \<Rightarrow> nat \<Rightarrow> center \<Rightarrow> center" where
  "addHandlerForEvent eventName handler nc =
     (let (a, nc1) = ensureArray eventName nc in
      if handler \<in> set (arrays nc1 a) then nc1
      else nc1\<lparr>arrays := (arrays nc1)(a := arrays nc1 a @ [handler])\<rparr>)"

text \<open>
  \<^verbatim>\<open>Array.prototype.remove\<close>: \<^verbatim>\<open>indexOf\<close> finds the first occurrence and
  \<^verbatim>\<open>splice(index, 1)\<close> deletes it in place; nothing happens when the item is absent.
\<close>

definition array_remove :: "nat \<Rightarrow> nat list \<Rightarrow> nat list" where
  "array_remove item xs = remove1 item xs"

definition cancelHandlerForEvent :: "string \<Rightarrow> nat \<Rightarrow> center \<Rightarrow> center" where
  "cancelHandlerForEvent eventName handler nc =
     (case slots nc eventName of
        None \<Rightarrow> nc
      | Some a \<Rightarrow> nc\<lparr>arrays := (arrays nc)(a := array_remove handler (arrays nc a))\<rparr>)"

definition cancelAllHandlersForEvent :: "string \<Rightarrow> center \<Rightarrow> center" where
  "cancelAllHandlersForEvent eventName nc = nc\<lparr>slots := (slots nc)(eventName := None)\<rparr>"

text \<open>
  \<^verbatim>\<open>Array.prototype.forEach\<close> reads the length once, then visits the indices
  \<open>0 ..< len\<close> of the array object in order, skipping an index that the array no longer
  has when it is reached. The array (reference \<open>a\<close>) is read afresh at every index, so
  a removal made by the callback shifts the later handlers to the left. The second
  component collects the handlers whose \<^verbatim>\<open>f\<close> was called, in order.
\<close>

function forEach_handler ::
  "(nat \<Rightarrow> handlerObject) \<Rightarrow> string \<Rightarrow> nat \<Rightarrow> nat \<Rightarrow> nat \<Rightarrow> center \<Rightarrow> nat list
     \<Rightarrow> center \<times> nat list" where
  "forEach_handler H eventName a k len nc called =
     (if k < len then
        (if k < length (arrays nc a) then
           (let handler = arrays nc a ! k;
                nc1 = handler_f (H handler) nc;
                nc2 = (if handler_once (H handler)
                       then cancelHandlerForEvent eventName handler nc1 else nc1)
            in forEach_handler H eventName a (Suc k) len nc2 (called @ [handler]))
         else forEach_handler H eventName a (Suc k) len nc called)
      else (nc, called))"
  by pat_completeness auto
termination
  by (relation "measure (\<lambda>(H, eventName, a, k, len, nc, called). len - k)") auto

definition fireEvent :: "(nat \<Rightarrow> handlerObject) \<Rightarrow> string \<Rightarrow> center \<Rightarrow> center \<times> nat list" where
  "fireEvent H eventName nc =
     (case slots nc eventName of
        None \<Rightarrow> (nc, [])
      | Some a \<Rightarrow> forEach_handler H eventName a 0 (length (arrays nc a)) nc [])"


section \<open>URLs and links\<close>

text \<open>
  A parsed URL (the \<^verbatim>\<open>URL\<close> interface, and the URL part of an anchor element). The
  query and the fragment are optional: \<open>Some []\<close> is an empty but present component
  (\<^verbatim>\<open>/page?\<close>, \<^verbatim>\<open>/page#\<close>). Credentials are not modelled.
\<close>

record url =
  protocol :: string
  hostname :: string
  port :: string
  pathname :: string
  query :: "string option"
  fragment :: "string option"

definition url_hash :: "url \<Rightarrow> string" where
  "url_hash u = (case fragment u of None \<Rightarrow> [] | Some f \<Rightarrow> if f = [] then [] else ''#'' @ f)"

definition href :: "url \<Rightarrow> string" where
  "href u = protocol u @ ''//'' @ hostname u
            @ (if port u = [] then [] else '':'' @ port u)
            @ pathname u
            @ (case query u of None \<Rightarrow> [] | Some q \<Rightarrow> ''?'' @ q)
            @ (case fragment u of None \<Rightarrow> [] | Some f \<Rightarrow> ''#'' @ f)"

text \<open>\<^verbatim>\<open>url.hash = ""; url.search = "";\<close> remove the fragment and the query.\<close>

definition clearHashAndSearch :: "url \<Rightarrow> url" where
  "clearHashAndSearch u = u\<lparr>query := None, fragment := None\<rparr>"

text \<open>
  A link is an anchor element: its URL (\<^verbatim>\<open>link.href\<close>, \<^verbatim>\<open>link.hostname\<close>,
  \<^verbatim>\<open>link.pathname\<close>, \<^verbatim>\<open>link.hash\<close>), its class list and the data attributes the
  code reads. \<open>urlOriginal\<close> is \<^verbatim>\<open>link.dataset.urlOriginal\<close> as a parsed URL, \<open>None\<close>
  when the attribute is absent or empty; \<open>targetId\<close> and \<open>backlinkTargetUrl\<close> are the
  empty string when absent.
\<close>

record link =
  url :: url
  classList :: "string list"
  urlOriginal :: "url option"
  targetId :: string
  backlinkTargetUrl :: string

section \<open>Strings\<close>

text \<open>
  Strings are sequences of bytes. A pathname is ASCII (the URL parser percent-encodes
  every other character) and the value of a response header is a byte string. The text
  of a document (markup, attribute values, response texts) is held in UTF-8: a
  character beyond ASCII is a sequence of two to four bytes, and because no encoded
  character is a part of another, a text begins, ends or continues with a character
  exactly when its bytes begin, end or continue with the bytes of that character.
\<close>

definition startsWith :: "string \<Rightarrow> string \<Rightarrow> bool" where
  "startsWith s p = prefix p s"

definition endsWith :: "string \<Rightarrow> string \<Rightarrow> bool" where
  "endsWith s p = prefix (rev p) (rev s)"

definition toLowerASCII :: "char \<Rightarrow> char" where
  "toLowerASCII c =
     (case map_of (zip ''ABCDEFGHIJKLMNOPQRSTUVWXYZ'' ''abcdefghijklmnopqrstuvwxyz'') c of
        Some d \<Rightarrow> d
      | None \<Rightarrow> c)"

text \<open>A regular expression \<^verbatim>\<open>\.(e1|e2|...)$\<close> with the flag \<^verbatim>\<open>i\<close>, tested on \<open>s\<close>.\<close>

definition endsWithExtension :: "string \<Rightarrow> string list \<Rightarrow> bool" where
  "endsWithExtension s exts =
     list_ex (\<lambda>e. endsWith (map toLowerASCII s) (map toLowerASCII (''.'' @ e))) exts"

definition isDigit :: "char \<Rightarrow> bool" where
  "isDigit c = (c \<in> set ''0123456789'')"

text \<open>
  The characters that \<^verbatim>\<open>.\<close> does not match are the line terminators: line feed,
  carriage return, U+2028 and U+2029. In a pathname and in a header value only the
  first two can occur, and \<open>lineTerminator\<close> tests one character. In the text of a
  document the other two are the bytes \<^verbatim>\<open>E2 80 A8\<close> and \<^verbatim>\<open>E2 80 A9\<close>, and
  \<open>atLineTerminator\<close> tests whether a text begins with a line terminator.
\<close>

definition lineTerminator :: "char \<Rightarrow> bool" where
  "lineTerminator c = (c = CHR 0x0A \<or> c = CHR 0x0D)"

definition lineTerminatorSequences :: "string list" where
  "lineTerminatorSequences =
     [[CHR 0x0A], [CHR 0x0D], [CHR 0xE2, CHR 0x80, CHR 0xA8], [CHR 0xE2, CHR 0x80, CHR 0xA9]]"

definition atLineTerminator :: "string \<Rightarrow> bool" where
  "atLineTerminator s = list_ex (\<lambda>t. prefix t s) lineTerminatorSequences"

text \<open>
  \<^verbatim>\<open>pathname.match(/\/.+?\/status\/[0-9]+$/)\<close>, as a backtracking matcher:
  \<open>statusTail\<close> is \<^verbatim>\<open>\/status\/[0-9]+$\<close> at the head of the string, \<open>midThenStatus\<close> is
  \<^verbatim>\<open>.+?\/status\/[0-9]+$\<close> at the head, and \<open>matchesTweetPath\<close> looks for the leading
  \<^verbatim>\<open>\/\<close> at every position.
\<close>

definition statusTail :: "string \<Rightarrow> bool" where
  "statusTail s = (prefix ''/status/'' s \<and> drop 8 s \<noteq> [] \<and> list_all isDigit (drop 8 s))"

fun midThenStatus :: "string \<Rightarrow> bool" where
  "midThenStatus [] = False"
| "midThenStatus (c # cs) = (\<not> lineTerminator c \<and> (statusTail cs \<or> midThenStatus cs))"

fun matchesTweetPath :: "string \<Rightarrow> bool" where
  "matchesTweetPath [] = False"
| "matchesTweetPath (c # cs) = ((c = CHR ''/'' \<and> midThenStatus cs) \<or> matchesTweetPath cs)"


text \<open>
  \<^verbatim>\<open>s.split(sep)\<close> for a one-character separator: the fields between separators,
  empty fields included; and \<^verbatim>\<open>parts.join(sep)\<close>.
\<close>

fun splitOn :: "char \<Rightarrow> string \<Rightarrow> string list" where
  "splitOn sep [] = [[]]"
| "splitOn sep (c # cs) =
     (if c = sep then [] # splitOn sep cs
      else (case splitOn sep cs of
              [] \<Rightarrow> [[c]]
            | t # ts \<Rightarrow> (c # t) # ts))"

fun join :: "string \<Rightarrow> string list \<Rightarrow> string" where
  "join sep [] = []"
| "join sep [p] = p"
| "join sep (p # q # ps) = p @ sep @ join sep (q # ps)"

text \<open>
  \<^verbatim>\<open>s.trim()\<close> removes white space and line terminators from both ends of a text:
  tab, line feed, vertical tab, form feed, carriage return, space, U+00A0, U+1680,
  U+2000 to U+200A, U+2028, U+2029, U+202F, U+205F, U+3000 and U+FEFF, here in UTF-8.
  \<open>stripLeading ws s\<close> removes from the head of \<open>s\<close> the sequences of \<open>ws\<close> as long
  as there is one.
\<close>

definition whiteSpaceSequences :: "string list" where
  "whiteSpaceSequences =
     [[CHR 0x09], [CHR 0x0A], [CHR 0x0B], [CHR 0x0C], [CHR 0x0D], [CHR 0x20],
      [CHR 0xC2, CHR 0xA0],
      [CHR 0xE1, CHR 0x9A, CHR 0x80],
      [CHR 0xE2, CHR 0x80, CHR 0x80], [CHR 0xE2, CHR 0x80, CHR 0x81],
      [CHR 0xE2, CHR 0x80, CHR 0x82], [CHR 0xE2, CHR 0x80, CHR 0x83],
      [CHR 0xE2, CHR 0x80, CHR 0x84], [CHR 0xE2, CHR 0x80, CHR 0x85],
      [CHR 0xE2, CHR 0x80, CHR 0x86], [CHR 0xE2, CHR 0x80, CHR 0x87],
      [CHR 0xE2, CHR 0x80, CHR 0x88], [CHR 0xE2, CHR 0x80, CHR 0x89],
      [CHR 0xE2, CHR 0x80, CHR 0x8A],
      [CHR 0xE2, CHR 0x80, CHR 0xA8], [CHR 0xE2, CHR 0x80, CHR 0xA9],
      [CHR 0xE2, CHR 0x80, CHR 0xAF],
      [CHR 0xE2, CHR 0x81, CHR 0x9F],
      [CHR 0xE3, CHR 0x80, CHR 0x80],
      [CHR 0xEF, CHR 0xBB, CHR 0xBF]]"

function stripLeading :: "string list \<Rightarrow> string \<Rightarrow> string" where
  "stripLeading ws s =
     (case find (\<lambda>w. w \<noteq> [] \<and> prefix w s) ws of
        None \<Rightarrow> s
      | Some w \<Rightarrow> stripLeading ws (drop (length w) s))"
  by pat_completeness auto
termination
  by (relation "measure (\<lambda>(ws, s). length s)") (auto simp: find_Some_iff prefix_def)

definition trim :: "string \<Rightarrow> string" where
  "trim s = rev (stripLeading (map rev whiteSpaceSequences) (rev (stripLeading whiteSpaceSequences s)))"

text \<open>\<^verbatim>\<open>s.replace(/x/g, r)\<close> for a one-character pattern.\<close>

definition replaceAll :: "char \<Rightarrow> string \<Rightarrow> string \<Rightarrow> string" where
  "replaceAll x r s = concat (map (\<lambda>c. if c = x then r else [c]) s)"

text \<open>An unanchored search: the pattern \<open>P\<close> matches at the head of some suffix.\<close>

fun searchAt :: "(string \<Rightarrow> bool) \<Rightarrow> string \<Rightarrow> bool" where
  "searchAt P [] = P []"
| "searchAt P (c # cs) = (P (c # cs) \<or> searchAt P cs)"

section \<open>Documents\<close>

text \<open>
  DOM nodes are element and text nodes; an element has a tag name (lower case, as the
  HTML parser leaves it), its attributes and its child nodes. A document is either the
  live \<^verbatim>\<open>document\<close> of the current page or a fragment made by \<^verbatim>\<open>newDocument\<close>,
  with its nodes and its \<^verbatim>\<open>baseLocation\<close>.
\<close>

datatype node = Element string "(string \<times> string) list" "node list" | Text string

datatype document = LiveDocument | Fragment "node list" "url option"

fun isElement :: "node \<Rightarrow> bool" where
  "isElement (Element t as ks) = True"
| "isElement (Text s) = False"

fun hasTag :: "string \<Rightarrow> node \<Rightarrow> bool" where
  "hasTag tg (Element t as ks) = (t = tg)"
| "hasTag tg (Text s) = False"

fun getAttribute :: "node \<Rightarrow> string \<Rightarrow> string option" where
  "getAttribute (Element t as ks) a = map_of as a"
| "getAttribute (Text s) a = None"

fun childNodes :: "node \<Rightarrow> node list" where
  "childNodes (Element t as ks) = ks"
| "childNodes (Text s) = []"

text \<open>\<^verbatim>\<open>element.id\<close> and \<^verbatim>\<open>element.className\<close> are empty when the attribute is absent.\<close>

definition elementId :: "node \<Rightarrow> string" where
  "elementId n = (case getAttribute n ''id'' of None \<Rightarrow> [] | Some v \<Rightarrow> v)"

definition className :: "node \<Rightarrow> string" where
  "className n = (case getAttribute n ''class'' of None \<Rightarrow> [] | Some v \<Rightarrow> v)"

text \<open>
  The classes of an element are the tokens of its \<^verbatim>\<open>class\<close> attribute, which ASCII
  white space separates: tab, line feed, form feed, carriage return and space.
\<close>

definition asciiWhitespace :: "char \<Rightarrow> bool" where
  "asciiWhitespace c = (c \<in> set [CHR '' '', CHR 0x09, CHR 0x0A, CHR 0x0C, CHR 0x0D])"

fun classTokens :: "string \<Rightarrow> string list" where
  "classTokens [] = []"
| "classTokens (c # cs) =
     (if asciiWhitespace c then classTokens cs
      else (case cs of
              [] \<Rightarrow> [[c]]
            | d # ds \<Rightarrow> if asciiWhitespace d then [c] # classTokens cs
                       else (case classTokens cs of
                               [] \<Rightarrow> [[c]]
                             | t # ts \<Rightarrow> (c # t) # ts)))"

definition hasClass :: "string \<Rightarrow> node \<Rightarrow> bool" where
  "hasClass c n = (c \<in> set (classTokens (className n)))"

fun textContent :: "node \<Rightarrow> string" where
  "textContent (Text s) = s"
| "textContent (Element t as ks) = concat (map textContent ks)"

definition firstElementChild :: "node \<Rightarrow> node option" where
  "firstElementChild n = find isElement (childNodes n)"

text \<open>
  An element found in a tree is given with its ancestors, the parent first.
  \<open>querySelector P ns\<close> is the first element in document order that satisfies \<open>P\<close>
  (a selector that reads the element alone); \<^verbatim>\<open>element.closest\<close> searches the
  element and then its ancestors.
\<close>

fun pathTo :: "(node \<Rightarrow> bool) \<Rightarrow> node \<Rightarrow> (node \<times> node list) option"
  and querySelector :: "(node \<Rightarrow> bool) \<Rightarrow> node list \<Rightarrow> (node \<times> node list) option" where
  "pathTo P (Text s) = None"
| "pathTo P (Element t as ks) =
     (if P (Element t as ks) then Some (Element t as ks, [])
      else map_option (\<lambda>(x, up). (x, up @ [Element t as ks])) (querySelector P ks))"
| "querySelector P [] = None"
| "querySelector P (n # ns) =
     (case pathTo P n of Some p \<Rightarrow> Some p | None \<Rightarrow> querySelector P ns)"

definition closest :: "(node \<Rightarrow> bool) \<Rightarrow> node \<times> node list \<Rightarrow> node option" where
  "closest P element = find P (fst element # snd element)"

text \<open>All elements in document order that satisfy \<open>P\<close>, each with its ancestors.\<close>

fun pathsIn :: "(node \<Rightarrow> bool) \<Rightarrow> node list \<Rightarrow> node \<Rightarrow> (node \<times> node list) list"
  and querySelectorAll ::
    "(node \<Rightarrow> bool) \<Rightarrow> node list \<Rightarrow> node list \<Rightarrow> (node \<times> node list) list" where
  "pathsIn P up (Text s) = []"
| "pathsIn P up (Element t as ks) =
     (if P (Element t as ks) then [(Element t as ks, up)] else [])
     @ querySelectorAll P (Element t as ks # up) ks"
| "querySelectorAll P up [] = []"
| "querySelectorAll P up (n # ns) = pathsIn P up n @ querySelectorAll P up ns"

section \<open>Content, cache entries, events and requests\<close>

datatype jsError = TypeError | ReferenceError

text \<open>
  The object a content type makes of a response: every content type sets
  \<^verbatim>\<open>document\<close>; a local page also sets \<^verbatim>\<open>title\<close>, \<^verbatim>\<open>bodyClasses\<close> and, when
  the page declares a thumbnail of its own, \<^verbatim>\<open>thumbnailHTML\<close>.
\<close>

record content =
  document :: document
  title :: "string option"
  bodyClasses :: "string list option"
  thumbnailHTML :: "string option"

text \<open>A value of \<^verbatim>\<open>Content.cachedContent\<close>: the string \<^verbatim>\<open>"LOADING_FAILED"\<close> or a content object.\<close>

datatype cached = LOADING_FAILED | Loaded content

text \<open>
  The events given to \<^verbatim>\<open>GW.notificationCenter.fireEvent\<close>, with their payload:
  the link for the two events of the loader; the source, the document and the load
  location for \<^verbatim>\<open>GW.contentDidLoad\<close>.
\<close>

datatype event =
    Content_contentDidLoad link
  | Content_contentLoadDidFail link
  | GW_contentDidLoad string document string

text \<open>
  A call of \<^verbatim>\<open>doAjax\<close> that has not been answered yet. \<open>ContentRequest\<close> is the
  request made by \<^verbatim>\<open>Content.load\<close>: its callbacks close over the link, the source
  URL being fetched and the source URLs that remain. \<open>Prefetch\<close> is a request without
  callbacks (the thumbnail of a page).
\<close>

datatype request = ContentRequest link url "url list" | Prefetch string

text \<open>
  What \<^verbatim>\<open>contentFromResponse\<close> does when it returns: the value returned (\<open>None\<close> for
  a falsy value), the payloads of the \<^verbatim>\<open>GW.contentDidLoad\<close> events it fired and the
  locations it requested.
\<close>

record parsed =
  parsedValue :: "content option"
  parsedEvents :: "(string \<times> document \<times> string) list"
  parsedRequests :: "string list"

section \<open>The environment\<close>

text \<open>
  The page the code runs in and the functions it calls that are not part of these
  sources: \<^verbatim>\<open>location\<close>; the nodes of the live \<^verbatim>\<open>document\<close>; the predicates of
  \<^verbatim>\<open>Annotations\<close> and \<^verbatim>\<open>Transclude\<close>; the HTML parser behind \<^verbatim>\<open>newDocument(string)\<close>
  and the serializer behind \<^verbatim>\<open>innerHTML\<close>; the URL parser \<^verbatim>\<open>new URL(string)\<close>
  (\<open>None\<close> when it throws); the element id that \<^verbatim>\<open>selectorFromHash(hash)\<close> selects;
  the URL of an anchor element of a document (\<open>None\<close> when its href does not parse);
  the global variable \<^verbatim>\<open>includeLink\<close> (\<open>None\<close> when no script has defined one);
  and the rewriting of the list of an auxiliary-links fragment (\<open>None\<close> when it throws).
\<close>

record env =
  location :: url
  liveNodes :: "node list"
  isAnnotatedLinkFull :: "link \<Rightarrow> bool"
  isAnnotatedLink :: "link \<Rightarrow> bool"
  isAnnotationTransclude :: "link \<Rightarrow> bool"
  parseHTML :: "string \<Rightarrow> node list"
  innerHTML :: "node \<Rightarrow> string"
  parseURL :: "string \<Rightarrow> url option"
  idFromHash :: "string \<Rightarrow> string"
  anchorURL :: "node \<Rightarrow> url option"
  includeLink :: "link option"
  markAuxLinksList :: "string \<Rightarrow> url \<Rightarrow> node list \<Rightarrow> node list option"

text \<open>
  Modelled from the spec: \<^verbatim>\<open>newDocument\<close>, which is not part of these sources, makes
  a new detached document fragment, never the live document: an empty one for no
  content (\<^verbatim>\<open>referenceDataFromContent\<close> appends to \<^verbatim>\<open>newDocument()\<close>), the parsed
  HTML for a string, and a copy of the nodes for a node or a list of nodes.
\<close>

definition newDocument :: "env \<Rightarrow> string option \<Rightarrow> node list" where
  "newDocument e response = (case response of None \<Rightarrow> [] | Some html \<Rightarrow> parseHTML e html)"

definition documentNodes :: "env \<Rightarrow> document \<Rightarrow> node list" where
  "documentNodes e d = (case d of LiveDocument \<Rightarrow> liveNodes e | Fragment ns b \<Rightarrow> ns)"

text \<open>The truth value of a response: \<^verbatim>\<open>undefined\<close> and the empty string are falsy.\<close>

definition truthy :: "string option \<Rightarrow> bool" where
  "truthy response = (case response of None \<Rightarrow> False | Some r \<Rightarrow> r \<noteq> [])"

section \<open>Content types\<close>

text \<open>
  A content type has the members \<^verbatim>\<open>matches\<close>, \<^verbatim>\<open>sourceURLsForLink\<close>,
  \<^verbatim>\<open>contentFromResponse\<close> (which may throw) and, for some,
  \<^verbatim>\<open>permittedContentTypes\<close>. \<open>typeName\<close> is its key in \<^verbatim>\<open>Content.contentTypes\<close>.
\<close>

record contentType =
  typeName :: string
  matches :: "env \<Rightarrow> link \<Rightarrow> bool"
  sourceURLsForLink :: "link \<Rightarrow> url list"
  contentFromResponse :: "env \<Rightarrow> string option \<Rightarrow> link \<Rightarrow> url \<Rightarrow> jsError + parsed"
  permittedContentTypes :: "string list option"

fun replaceFirst :: "string \<Rightarrow> string \<Rightarrow> string \<Rightarrow> string" where
  "replaceFirst pat r [] = (if pat = [] then r else [])"
| "replaceFirst pat r (c # cs) =
     (if prefix pat (c # cs) then r @ drop (length pat) (c # cs)
      else c # replaceFirst pat r cs)"

definition originalURLForLink :: "link \<Rightarrow> url" where
  "originalURLForLink l =
     (case urlOriginal l of
        None \<Rightarrow> url l
      | Some originalURL \<Rightarrow>
          if hostname originalURL = ''ar5iv.labs.arxiv.org''
          then originalURL\<lparr>hostname := ''arxiv.org'',
                           pathname := replaceFirst ''/html/'' ''/abs/'' (pathname originalURL),
                           query := None\<rparr>
          else originalURL)"

subsection \<open>localTweetArchive\<close>

definition localTweetArchive_matches :: "env \<Rightarrow> link \<Rightarrow> bool" where
  "localTweetArchive_matches e l =
     (let originalURL = originalURLForLink l in
        hostname (url l) = hostname (location e)
      \<and> startsWith (pathname (url l)) ''/doc/www/''
      \<and> hostname originalURL = ''twitter.com''
      \<and> matchesTweetPath (pathname originalURL))"

definition singleSourceURL :: "link \<Rightarrow> url list" where
  "singleSourceURL l = [clearHashAndSearch (url l)]"

definition onlyDocument :: "document \<Rightarrow> content" where
  "onlyDocument d = \<lparr>document = d, title = None, bodyClasses = None, thumbnailHTML = None\<rparr>"

definition localTweetArchive_contentFromResponse ::
  "env \<Rightarrow> string option \<Rightarrow> link \<Rightarrow> url \<Rightarrow> jsError + parsed" where
  "localTweetArchive_contentFromResponse e response l loadURL =
     Inr \<lparr>parsedValue = Some (onlyDocument (Fragment (newDocument e response) None)),
          parsedEvents = [], parsedRequests = []\<rparr>"

definition localTweetArchive :: contentType where
  "localTweetArchive =
     \<lparr>typeName = ''localTweetArchive'',
      matches = localTweetArchive_matches,
      sourceURLsForLink = singleSourceURL,
      contentFromResponse = localTweetArchive_contentFromResponse,
      permittedContentTypes = None\<rparr>"

subsection \<open>localCodeFile\<close>

definition codeFileExtensions :: "string list" where
  "codeFileExtensions =
     [''bash'', ''c'', ''conf'', ''css'', ''csv'', ''diff'', ''hs'', ''html'', ''js'',
      ''json'', ''jsonl'', ''opml'', ''page'', ''patch'', ''php'', ''py'', ''R'',
      ''sh'', ''xml'', ''yaml'', ''txt'']"

definition localCodeFile_matches :: "env \<Rightarrow> link \<Rightarrow> bool" where
  "localCodeFile_matches e l =
     (if hostname (url l) \<noteq> hostname (location e) then False
      else if isAnnotatedLinkFull e l then False
      else if startsWith (pathname (url l)) ''/metadata/'' then False
      else if startsWith (pathname (url l)) ''/doc/www/''
              \<or> (startsWith (pathname (url l)) ''/doc/''
                  \<and> endsWithExtension (pathname (url l)) [''html'', ''pdf''])
           then False
      else endsWithExtension (pathname (url l)) codeFileExtensions)"

definition localCodeFile_sourceURLsForLink :: "link \<Rightarrow> url list" where
  "localCodeFile_sourceURLsForLink l =
     (let codeFileURL = clearHashAndSearch (url l);
          syntaxHighlightedCodeFileURL = codeFileURL\<lparr>pathname := pathname codeFileURL @ ''.html''\<rparr>
      in [syntaxHighlightedCodeFileURL, codeFileURL])"

text \<open>
  The first descendant in document order that satisfies \<open>P\<close> is replaced by \<open>f\<close> of
  it (an assignment to a property of the element \<^verbatim>\<open>querySelector\<close> found).
\<close>

fun updateFirst :: "(node \<Rightarrow> bool) \<Rightarrow> (node \<Rightarrow> node) \<Rightarrow> node \<Rightarrow> node option"
  and updateFirstIn :: "(node \<Rightarrow> bool) \<Rightarrow> (node \<Rightarrow> node) \<Rightarrow> node list \<Rightarrow> node list option" where
  "updateFirst P f (Text s) = None"
| "updateFirst P f (Element t as ks) =
     (if P (Element t as ks) then Some (f (Element t as ks))
      else map_option (Element t as) (updateFirstIn P f ks))"
| "updateFirstIn P f [] = None"
| "updateFirstIn P f (n # ns) =
     (case updateFirst P f n of
        Some n' \<Rightarrow> Some (n' # ns)
      | None \<Rightarrow> map_option (Cons n) (updateFirstIn P f ns))"

fun setChildNodes :: "node list \<Rightarrow> node \<Rightarrow> node" where
  "setChildNodes ks' (Element t as ks) = Element t as ks'"
| "setChildNodes ks' (Text s) = Text s"

definition htmlEncodeAngles :: "string \<Rightarrow> string" where
  "htmlEncodeAngles s =
     concat (map (\<lambda>c. if c = CHR ''<'' then ''&#60;'' else if c = CHR ''>'' then ''&#62;'' else [c]) s)"

definition lineSpans :: "string \<Rightarrow> string" where
  "lineSpans html =
     join [CHR 0x0A]
       (map (\<lambda>line. ''<span class='' @ [CHR 0x22] @ ''line'' @ [CHR 0x22] @ ''>''
                    @ (if line = [] then ''&nbsp;'' else line) @ ''</span>'')
            (splitOn (CHR 0x0A) html))"

definition localCodeFile_contentFromResponse ::
  "env \<Rightarrow> string option \<Rightarrow> link \<Rightarrow> url \<Rightarrow> jsError + parsed" where
  "localCodeFile_contentFromResponse e response l loadURL =
     (case response of
        None \<Rightarrow> Inl TypeError
      | Some r \<Rightarrow>
          (let codeDocument =
                 (if take 1 r = ''<'' then newDocument e (Some r)
                  else newDocument e
                         (Some (''<pre class='' @ [CHR 0x22] @ ''raw-code'' @ [CHR 0x22] @ ''><code>''
                                @ htmlEncodeAngles r @ ''</code></pre>'')))
           in case updateFirstIn (hasTag ''code'')
                     (\<lambda>codeBlock. setChildNodes (parseHTML e (lineSpans (innerHTML e codeBlock))) codeBlock)
                     codeDocument of
                None \<Rightarrow> Inl TypeError
              | Some codeDocument' \<Rightarrow>
                  Inr \<lparr>parsedValue = Some (onlyDocument (Fragment codeDocument' None)),
                       parsedEvents = [], parsedRequests = []\<rparr>))"

definition localCodeFile :: contentType where
  "localCodeFile =
     \<lparr>typeName = ''localCodeFile'',
      matches = localCodeFile_matches,
      sourceURLsForLink = localCodeFile_sourceURLsForLink,
      contentFromResponse = localCodeFile_contentFromResponse,
      permittedContentTypes = None\<rparr>"

subsection \<open>localFragment\<close>

definition localFragment_matches :: "env \<Rightarrow> link \<Rightarrow> bool" where
  "localFragment_matches e l =
     (if hostname (url l) \<noteq> hostname (location e) then False
      else if isAnnotatedLinkFull e l then False
      else startsWith (pathname (url l)) ''/metadata/''
           \<and> endsWith (pathname (url l)) ''.html'')"

definition auxLinksLinkTypes :: "(string \<times> string) list" where
  "auxLinksLinkTypes =
     [(''/metadata/annotation/backlink/'', ''backlinks''),
      (''/metadata/annotation/similar/'', ''similars''),
      (''/metadata/annotation/link-bibliography/'', ''link-bibliography'')]"

definition auxLinksLinkType :: "url \<Rightarrow> string option" where
  "auxLinksLinkType u =
     map_option snd (find (\<lambda>(pathnamePrefix, linkType). startsWith (pathname u) pathnamePrefix)
                          auxLinksLinkTypes)"

text \<open>
  The fragment is parsed; when the load URL is that of an auxiliary-links list, the
  list in the fragment gets its classes (a rewriting of the fragment done by the
  environment function \<open>markAuxLinksList\<close>; it throws when the list has no previous
  element sibling); then \<^verbatim>\<open>GW.contentDidLoad\<close> is fired.
\<close>

definition localFragment_contentFromResponse ::
  "env \<Rightarrow> string option \<Rightarrow> link \<Rightarrow> url \<Rightarrow> jsError + parsed" where
  "localFragment_contentFromResponse e response l loadURL =
     (let fragment = newDocument e response;
          marked = (case auxLinksLinkType loadURL of
                      None \<Rightarrow> Some fragment
                    | Some linkType \<Rightarrow> markAuxLinksList e linkType loadURL fragment)
      in case marked of
           None \<Rightarrow> Inl TypeError
         | Some fragment' \<Rightarrow>
             Inr \<lparr>parsedValue = Some (onlyDocument (Fragment fragment' None)),
                  parsedEvents = [(''Content.contentTypes.localFragment.load'',
                                   Fragment fragment' None, href (url l))],
                  parsedRequests = []\<rparr>)"

definition localFragment :: contentType where
  "localFragment =
     \<lparr>typeName = ''localFragment'',
      matches = localFragment_matches,
      sourceURLsForLink = singleSourceURL,
      contentFromResponse = localFragment_contentFromResponse,
      permittedContentTypes = Some [''text/html'']\<rparr>"


subsection \<open>localPage\<close>

definition localPage_matches :: "env \<Rightarrow> link \<Rightarrow> bool" where
  "localPage_matches e l =
     (if hostname (url l) \<noteq> hostname (location e) then False
      else if isAnnotatedLinkFull e l then False
      else CHR ''.'' \<notin> set (pathname (url l))
           \<or> endsWith (pathname (url l)) ''/index''
           \<or> ''link-page'' \<in> set (classList l))"

definition metaNamed :: "string \<Rightarrow> node \<Rightarrow> bool" where
  "metaNamed v n = (hasTag ''meta'' n \<and> getAttribute n ''name'' = Some v)"

definition metaProperty :: "string \<Rightarrow> node \<Rightarrow> bool" where
  "metaProperty v n = (hasTag ''meta'' n \<and> getAttribute n ''property'' = Some v)"

text \<open>
  \<^verbatim>\<open>pageTitleRegexp\<close>, anchored at both ends: the first group is the shortest
  non-empty run of characters other than line terminators that is followed by the site
  suffix (a space, a middle dot in UTF-8, \<^verbatim>\<open> Gwern.net\<close>) and, optionally, by
  \<^verbatim>\<open> (reader mode)\<close>. The title is the text of a document, so the line
  terminators are those of \<open>atLineTerminator\<close>.
\<close>

definition siteSuffix :: string where
  "siteSuffix = '' '' @ [CHR 0xC2, CHR 0xB7] @ '' Gwern.net''"

fun pageTitleRegexp_match :: "string \<Rightarrow> string option" where
  "pageTitleRegexp_match [] = None"
| "pageTitleRegexp_match (c # cs) =
     (if atLineTerminator (c # cs) then None
      else if cs = siteSuffix \<or> cs = siteSuffix @ '' (reader mode)'' then Some [c]
      else map_option (Cons c) (pageTitleRegexp_match cs))"

definition defaultPageThumbnailPathnamePrefix :: string where
  "defaultPageThumbnailPathnamePrefix = ''/static/img/logo/logo-''"

definition attributeText :: "node \<Rightarrow> string \<Rightarrow> string" where
  "attributeText n a = (case getAttribute n a of None \<Rightarrow> ''null'' | Some v \<Rightarrow> v)"

definition imgTag :: "string \<Rightarrow> string \<Rightarrow> string \<Rightarrow> string \<Rightarrow> string" where
  "imgTag src alt width height =
     (let dq = [CHR 0x22]; indent = CHR 0x0A # replicate 7 (CHR 0x09) in
      ''<img''
      @ indent @ ''src='' @ dq @ src @ dq
      @ indent @ ''title='' @ dq @ alt @ dq
      @ indent @ ''width='' @ dq @ width @ dq
      @ indent @ ''height='' @ dq @ height @ dq
      @ indent @ ''style='' @ dq @ ''width: '' @ width @ ''px; height: auto;'' @ dq
      @ indent @ [CHR 0x09] @ ''>'')"

text \<open>
  The thumbnail of a page: its \<^verbatim>\<open><img>\<close> tag, unless the image is one of the
  default logos, and the location requested to load the image into the browser cache.
  Without an \<^verbatim>\<open>og:image\<close> tag there is neither.
\<close>

definition pageThumbnail :: "env \<Rightarrow> node list \<Rightarrow> string \<Rightarrow> jsError + (string option \<times> string list)" where
  "pageThumbnail e page pageTitle =
     (case querySelector (metaProperty ''og:image'') page of
        None \<Rightarrow> Inr (None, [])
      | Some (pageThumbnailMetaTag, up) \<Rightarrow>
          (case parseURL e (attributeText pageThumbnailMetaTag ''content'') of
             None \<Rightarrow> Inl TypeError
           | Some pageThumbnailURL \<Rightarrow>
               (case (case querySelector (metaProperty ''og:image:alt'') page of
                        None \<Rightarrow> Some (''Thumbnail image for '' @ [CHR 0xE2, CHR 0x80, CHR 0x9C]
                                       @ pageTitle @ [CHR 0xE2, CHR 0x80, CHR 0x9D])
                      | Some (pageThumbnailAltMetaTag, up') \<Rightarrow>
                          getAttribute pageThumbnailAltMetaTag ''content'') of
                  None \<Rightarrow> Inl TypeError
                | Some altText \<Rightarrow>
                    (case (querySelector (metaProperty ''og:image:width'') page,
                           querySelector (metaProperty ''og:image:height'') page) of
                       (Some (widthTag, up1), Some (heightTag, up2)) \<Rightarrow>
                         Inr (if \<not> startsWith (pathname pageThumbnailURL)
                                              defaultPageThumbnailPathnamePrefix
                              then Some (imgTag (href pageThumbnailURL)
                                           (replaceAll (CHR 0x22) ''&quot;'' altText)
                                           (attributeText widthTag ''content'')
                                           (attributeText heightTag ''content''))
                              else None,
                              [href pageThumbnailURL])
                     | _ \<Rightarrow> Inl TypeError))))"

definition localPage_contentFromResponse ::
  "env \<Rightarrow> string option \<Rightarrow> link \<Rightarrow> url \<Rightarrow> jsError + parsed" where
  "localPage_contentFromResponse e response l loadURL =
     (let page = (if truthy response then Fragment (newDocument e response) (Some loadURL)
                  else LiveDocument);
          nodes = documentNodes e page
      in case querySelector (metaNamed ''page-body-classes'') nodes of
           None \<Rightarrow> Inl TypeError
         | Some (bodyClassesTag, up) \<Rightarrow>
        (case getAttribute bodyClassesTag ''content'' of
           None \<Rightarrow> Inl TypeError
         | Some bodyClassesText \<Rightarrow>
        (case querySelector (hasTag ''title'') nodes of
           None \<Rightarrow> Inl TypeError
         | Some (titleElement, up') \<Rightarrow>
        (case pageTitleRegexp_match (innerHTML e titleElement) of
           None \<Rightarrow> Inl TypeError
         | Some pageTitle \<Rightarrow>
        (case pageThumbnail e nodes pageTitle of
           Inl err \<Rightarrow> Inl err
         | Inr (pageThumbnailHTML, requested) \<Rightarrow>
             Inr \<lparr>parsedValue =
                    Some \<lparr>document = page,
                          title = Some pageTitle,
                          bodyClasses = Some (splitOn (CHR '' '') (trim bodyClassesText)),
                          thumbnailHTML = pageThumbnailHTML\<rparr>,
                  parsedEvents =
                    (if truthy response
                     then [(''Content.contentTypes.localPage.load'', page, href loadURL)]
                     else []),
                  parsedRequests = requested\<rparr>)))))"

definition localPage :: contentType where
  "localPage =
     \<lparr>typeName = ''localPage'',
      matches = localPage_matches,
      sourceURLsForLink = singleSourceURL,
      contentFromResponse = localPage_contentFromResponse,
      permittedContentTypes = Some [''text/html'']\<rparr>"

subsection \<open>The registry and the classification of a link\<close>

text \<open>\<^verbatim>\<open>Object.entries(Content.contentTypes)\<close>: the content types in the order of their keys.\<close>

definition Content_contentTypes :: "contentType list" where
  "Content_contentTypes = [localTweetArchive, localCodeFile, localFragment, localPage]"

text \<open>
  \<^verbatim>\<open>Content.contentTypeForLink\<close>: the loop over the entries returns the first content
  type that matches, and \<^verbatim>\<open>null\<close> after the last one. The registry is a parameter
  of the functions of \<^verbatim>\<open>Content\<close>; \<open>Content_contentTypes\<close> is its value in the sources.
\<close>

fun contentTypeForLink :: "contentType list \<Rightarrow> env \<Rightarrow> link \<Rightarrow> contentType option" where
  "contentTypeForLink [] e l = None"
| "contentTypeForLink (contentType # rest) e l =
     (if matches contentType e l then Some contentType else contentTypeForLink rest e l)"

text \<open>
  \<^verbatim>\<open>Content.sourceURLsForLink\<close> and \<^verbatim>\<open>Content.contentFromResponse\<close> call the member
  of the content type of the link, and throw when the link has none;
  \<^verbatim>\<open>Content.contentCacheKeyForLink\<close> is the href of the first source URL, and throws
  when there is none.
\<close>

definition Content_sourceURLsForLink :: "contentType list \<Rightarrow> env \<Rightarrow> link \<Rightarrow> jsError + url list" where
  "Content_sourceURLsForLink types e l =
     (case contentTypeForLink types e l of
        None \<Rightarrow> Inl TypeError
      | Some contentType \<Rightarrow> Inr (sourceURLsForLink contentType l))"

definition Content_contentCacheKeyForLink :: "contentType list \<Rightarrow> env \<Rightarrow> link \<Rightarrow> jsError + string" where
  "Content_contentCacheKeyForLink types e l =
     (case Content_sourceURLsForLink types e l of
        Inl err \<Rightarrow> Inl err
      | Inr [] \<Rightarrow> Inl TypeError
      | Inr (first # rest) \<Rightarrow> Inr (href first))"

definition Content_contentFromResponse ::
  "contentType list \<Rightarrow> env \<Rightarrow> string option \<Rightarrow> link \<Rightarrow> url \<Rightarrow> jsError + parsed" where
  "Content_contentFromResponse types e response l loadURL =
     (case contentTypeForLink types e l of
        None \<Rightarrow> Inl TypeError
      | Some contentType \<Rightarrow> contentFromResponse contentType e response l loadURL)"


section \<open>The cache and the loader\<close>

text \<open>
  The state of \<^verbatim>\<open>Content\<close> and of what it acts on: the cache
  \<^verbatim>\<open>Content.cachedContent\<close>, keyed by the cache key of a link; the requests made by
  \<^verbatim>\<open>doAjax\<close> that have not been answered; the events fired, in order; the errors
  reported by \<^verbatim>\<open>GWServerLogError\<close> (message and reason); the calls of load handlers
  (\<open>(h, link)\<close> for \<^verbatim>\<open>h(link)\<close>, handlers being named by numbers); and the pairs
  of handlers that \<^verbatim>\<open>waitForDataLoad\<close> has registered with the notification center
  for the two events of a link. \<^verbatim>\<open>doAjax\<close>, \<^verbatim>\<open>GWServerLogError\<close> and the
  notification center that \<^verbatim>\<open>Content\<close> calls (its \<^verbatim>\<open>fireEvent\<close> takes a payload
  and its handlers have options) are not part of these sources: each is modelled by
  what it records. The handlers that other components have registered for an event
  run when it is fired; what they do is not part of the state.
\<close>

record state =
  cachedContent :: "string \<Rightarrow> cached option"
  requests :: "request list"
  fired :: "event list"
  serverLog :: "(string \<times> string) list"
  handlerCalls :: "(nat \<times> link) list"
  waiting :: "(link \<times> nat option \<times> nat option) list"

text \<open>A function that may throw returns the error or its value, and the state it leaves.\<close>

type_synonym 'a outcome = "(jsError + 'a) \<times> state"

definition Content_cacheContentForLink ::
  "contentType list \<Rightarrow> env \<Rightarrow> cached \<Rightarrow> link \<Rightarrow> state \<Rightarrow> unit outcome" where
  "Content_cacheContentForLink types e c l s =
     (case Content_contentCacheKeyForLink types e l of
        Inl err \<Rightarrow> (Inl err, s)
      | Inr key \<Rightarrow> (Inr (), s\<lparr>cachedContent := (cachedContent s)(key \<mapsto> c)\<rparr>))"

text \<open>
  \<^verbatim>\<open>processResponse\<close>, the closure of \<^verbatim>\<open>Content.load\<close> over the link and the source
  URL: a truthy content is cached and \<^verbatim>\<open>Content.contentDidLoad\<close> is fired; for a falsy
  one the failure marker is cached, \<^verbatim>\<open>Content.contentLoadDidFail\<close> is fired and the
  failure is reported.
\<close>

definition processResponse ::
  "contentType list \<Rightarrow> env \<Rightarrow> link \<Rightarrow> url \<Rightarrow> string option \<Rightarrow> state \<Rightarrow> unit outcome" where
  "processResponse types e l sourceURL response s =
     (case Content_contentFromResponse types e response l sourceURL of
        Inl err \<Rightarrow> (Inl err, s)
      | Inr p \<Rightarrow>
          (let s1 = s\<lparr>fired := fired s
                                 @ map (\<lambda>(source, d, loc). GW_contentDidLoad source d loc)
                                       (parsedEvents p),
                      requests := requests s @ map Prefetch (parsedRequests p)\<rparr>
           in case parsedValue p of
                Some c \<Rightarrow>
                  (case Content_cacheContentForLink types e (Loaded c) l s1 of
                     (Inl err, s2) \<Rightarrow> (Inl err, s2)
                   | (Inr u, s2) \<Rightarrow>
                       (Inr (), s2\<lparr>fired := fired s2 @ [Content_contentDidLoad l]\<rparr>))
              | None \<Rightarrow>
                  (case Content_cacheContentForLink types e LOADING_FAILED l s1 of
                     (Inl err, s2) \<Rightarrow> (Inl err, s2)
                   | (Inr u, s2) \<Rightarrow>
                       (Inr (), s2\<lparr>fired := fired s2 @ [Content_contentLoadDidFail l],
                                   serverLog := serverLog s2
                                     @ [(href sourceURL @ ''--could-not-process'',
                                         ''problematic content'')]\<rparr>))))"

text \<open>
  \<^verbatim>\<open>Content.load\<close> up to the call of the handlers: the source URLs that remain are the
  argument or, without one, the source URLs of the link; the first is taken off
  (\<^verbatim>\<open>shift\<close>; without a first one, reading its pathname throws). When its path is that
  of the current page the response is processed at once, without a response text;
  otherwise the request is made. This is all of \<^verbatim>\<open>Content.load\<close> when it is called
  without handlers.
\<close>

definition loadSource ::
  "contentType list \<Rightarrow> env \<Rightarrow> link \<Rightarrow> url list option \<Rightarrow> state \<Rightarrow> unit outcome" where
  "loadSource types e l sourceURLsRemaining s =
     (case (case sourceURLsRemaining of
              Some urls \<Rightarrow> Inr urls
            | None \<Rightarrow> Content_sourceURLsForLink types e l) of
        Inl err \<Rightarrow> (Inl err, s)
      | Inr [] \<Rightarrow> (Inl TypeError, s)
      | Inr (sourceURL # remaining) \<Rightarrow>
          if pathname sourceURL = pathname (location e)
          then processResponse types e l sourceURL None s
          else (Inr (), s\<lparr>requests := requests s @ [ContentRequest l sourceURL remaining]\<rparr>))"

definition Content_cachedContentForLink ::
  "contentType list \<Rightarrow> env \<Rightarrow> link \<Rightarrow> state \<Rightarrow> cached option outcome" where
  "Content_cachedContentForLink types e l s =
     (case (if pathname (url l) = pathname (location e)
            then loadSource types e l None s else (Inr (), s)) of
        (Inl err, s1) \<Rightarrow> (Inl err, s1)
      | (Inr u, s1) \<Rightarrow>
          (case Content_contentCacheKeyForLink types e l of
             Inl err \<Rightarrow> (Inl err, s1)
           | Inr key \<Rightarrow> (Inr (cachedContent s1 key), s1)))"

definition Content_cachedDocumentForLink ::
  "contentType list \<Rightarrow> env \<Rightarrow> link \<Rightarrow> state \<Rightarrow> document option outcome" where
  "Content_cachedDocumentForLink types e l s =
     (case Content_cachedContentForLink types e l s of
        (Inl err, s1) \<Rightarrow> (Inl err, s1)
      | (Inr (Some (Loaded c)), s1) \<Rightarrow> (Inr (Some (document c)), s1)
      | (Inr other, s1) \<Rightarrow> (Inr None, s1))"

definition Content_cachedDataExists ::
  "contentType list \<Rightarrow> env \<Rightarrow> link \<Rightarrow> state \<Rightarrow> bool outcome" where
  "Content_cachedDataExists types e l s =
     (case Content_cachedContentForLink types e l s of
        (Inl err, s1) \<Rightarrow> (Inl err, s1)
      | (Inr found, s1) \<Rightarrow>
          (Inr (found \<noteq> None \<and> found \<noteq> Some LOADING_FAILED), s1))"

definition callHandler :: "nat option \<Rightarrow> link \<Rightarrow> state \<Rightarrow> state" where
  "callHandler handler l s =
     (case handler of
        None \<Rightarrow> s
      | Some h \<Rightarrow> s\<lparr>handlerCalls := handlerCalls s @ [(h, l)]\<rparr>)"

text \<open>
  \<^verbatim>\<open>Content.waitForDataLoad\<close> looks the cached content up, twice when it is not the
  failure marker, and calls a handler at once when there is a content; otherwise it
  registers the two handlers.
\<close>

definition Content_waitForDataLoad ::
  "contentType list \<Rightarrow> env \<Rightarrow> link \<Rightarrow> nat option \<Rightarrow> nat option \<Rightarrow> state \<Rightarrow> unit outcome" where
  "Content_waitForDataLoad types e l loadHandler loadFailHandler s =
     (case Content_cachedContentForLink types e l s of
        (Inl err, s1) \<Rightarrow> (Inl err, s1)
      | (Inr first, s1) \<Rightarrow>
          if first = Some LOADING_FAILED then (Inr (), callHandler loadFailHandler l s1)
          else (case Content_cachedContentForLink types e l s1 of
                  (Inl err, s2) \<Rightarrow> (Inl err, s2)
                | (Inr second, s2) \<Rightarrow>
                    if second \<noteq> None then (Inr (), callHandler loadHandler l s2)
                    else (Inr (), s2\<lparr>waiting := waiting s2 @ [(l, loadHandler, loadFailHandler)]\<rparr>)))"

definition Content_load ::
  "contentType list \<Rightarrow> env \<Rightarrow> link \<Rightarrow> nat option \<Rightarrow> nat option \<Rightarrow> url list option \<Rightarrow> state
     \<Rightarrow> unit outcome" where
  "Content_load types e l loadHandler loadFailHandler sourceURLsRemaining s =
     (case loadSource types e l sourceURLsRemaining s of
        (Inl err, s1) \<Rightarrow> (Inl err, s1)
      | (Inr u, s1) \<Rightarrow>
          if loadHandler \<noteq> None \<or> loadFailHandler \<noteq> None
          then Content_waitForDataLoad types e l loadHandler loadFailHandler s1
          else (Inr (), s1))"

text \<open>
  The media type of a \<^verbatim>\<open>Content-Type\<close> header: the first group of
  \<^verbatim>\<open>/(.+?)(?:;|$)/\<close>. \<open>mediaTypeHere\<close> matches at the head of the string, the search
  tries every position.
\<close>

fun mediaTypeHere :: "string \<Rightarrow> string option" where
  "mediaTypeHere [] = None"
| "mediaTypeHere (c # cs) =
     (if lineTerminator c then None
      else if (case cs of [] \<Rightarrow> True | d # ds \<Rightarrow> d = CHR '';'') then Some [c]
      else map_option (Cons c) (mediaTypeHere cs))"

fun mediaType :: "string \<Rightarrow> string option" where
  "mediaType [] = None"
| "mediaType (c # cs) =
     (case mediaTypeHere (c # cs) of Some m \<Rightarrow> Some m | None \<Rightarrow> mediaType cs)"

text \<open>
  The test of \<^verbatim>\<open>onSuccess\<close> on the header: a content type with permitted content
  types rejects a response without a \<^verbatim>\<open>Content-Type\<close> header and one whose media
  type is not among them; reading the first group throws when the pattern does not
  match.
\<close>

definition contentTypeRejected :: "contentType \<Rightarrow> string option \<Rightarrow> jsError + bool" where
  "contentTypeRejected contentType httpContentTypeHeader =
     (case permittedContentTypes contentType of
        None \<Rightarrow> Inr False
      | Some permitted \<Rightarrow>
          (case httpContentTypeHeader of
             None \<Rightarrow> Inr True
           | Some header \<Rightarrow>
               (case mediaType header of
                  None \<Rightarrow> Inl TypeError
                | Some m \<Rightarrow> Inr (m \<notin> set permitted))))"

text \<open>
  The callback \<^verbatim>\<open>onSuccess\<close> of the request, with the \<^verbatim>\<open>Content-Type\<close> header of the
  response (\<open>None\<close> when there is none) and the response text. With a content type that
  is not permitted, the error report reads the variable \<^verbatim>\<open>includeLink\<close>, which
  \<^verbatim>\<open>Content.load\<close> does not define, and the callback returns.
\<close>

definition onSuccess ::
  "contentType list \<Rightarrow> env \<Rightarrow> link \<Rightarrow> url \<Rightarrow> string option \<Rightarrow> string \<Rightarrow> state \<Rightarrow> unit outcome" where
  "onSuccess types e l sourceURL httpContentTypeHeader responseText s =
     (case contentTypeForLink types e l of
        None \<Rightarrow> (Inl TypeError, s)
      | Some contentType \<Rightarrow>
          (case contentTypeRejected contentType httpContentTypeHeader of
             Inl err \<Rightarrow> (Inl err, s)
           | Inr True \<Rightarrow>
               (case includeLink e of
                  None \<Rightarrow> (Inl ReferenceError, s)
                | Some other \<Rightarrow>
                    (Inr (), s\<lparr>serverLog := serverLog s
                                 @ [(href (url other) @ ''--bad-content-type'',
                                     ''bad content type'')]\<rparr>))
           | Inr False \<Rightarrow> processResponse types e l sourceURL (Some responseText) s))"

text \<open>
  The callback \<^verbatim>\<open>onFailure\<close>: the next source URL is loaded when one remains;
  otherwise the failure marker is cached, \<^verbatim>\<open>Content.contentLoadDidFail\<close> is fired and
  the failure is reported.
\<close>

definition onFailure ::
  "contentType list \<Rightarrow> env \<Rightarrow> link \<Rightarrow> url \<Rightarrow> url list \<Rightarrow> state \<Rightarrow> unit outcome" where
  "onFailure types e l sourceURL sourceURLsRemaining s =
     (if sourceURLsRemaining \<noteq> []
      then Content_load types e l None None (Some sourceURLsRemaining) s
      else (case Content_cacheContentForLink types e LOADING_FAILED l s of
              (Inl err, s1) \<Rightarrow> (Inl err, s1)
            | (Inr u, s1) \<Rightarrow>
                (Inr (), s1\<lparr>fired := fired s1 @ [Content_contentLoadDidFail l],
                            serverLog := serverLog s1 @ [(href sourceURL, ''missing content'')]\<rparr>)))"

text \<open>
  Modelled from the spec: \<^verbatim>\<open>doAjax\<close>, which is not part of these sources, makes a
  GET request and later calls \<^verbatim>\<open>onSuccess\<close> when the transport succeeded and
  \<^verbatim>\<open>onFailure\<close> when it failed, once. The answer to a request is either a success,
  with the \<^verbatim>\<open>Content-Type\<close> header and the response text, or a failure.
  \<open>respond i r\<close> answers the \<open>i\<close>-th pending request: the request is no longer
  pending and its callback runs.
\<close>

datatype response = Succeeded "string option" string | Failed

definition respond :: "contentType list \<Rightarrow> env \<Rightarrow> nat \<Rightarrow> response \<Rightarrow> state \<Rightarrow> unit outcome" where
  "respond types e i r s =
     (if i < length (requests s)
      then (let s1 = s\<lparr>requests := take i (requests s) @ drop (Suc i) (requests s)\<rparr>
            in case requests s ! i of
                 Prefetch loc \<Rightarrow> (Inr (), s1)
               | ContentRequest l sourceURL remaining \<Rightarrow>
                   (case r of
                      Succeeded header responseText \<Rightarrow>
                        onSuccess types e l sourceURL header responseText s1
                    | Failed \<Rightarrow> onFailure types e l sourceURL remaining s1))
      else (Inr (), s))"


section \<open>Reference data of a local page\<close>

text \<open>
  \<^verbatim>\<open>link.hash.match(/#[^#]*/g)\<close>: the hash cut before every \<^verbatim>\<open>#\<close>. \<open>scanAnchors\<close>
  returns the characters before the first \<^verbatim>\<open>#\<close> of the string and the matches after
  them.
\<close>

fun scanAnchors :: "string \<Rightarrow> string \<times> string list" where
  "scanAnchors [] = ([], [])"
| "scanAnchors (c # cs) =
     (case scanAnchors cs of
        (run, found) \<Rightarrow> if c = CHR ''#'' then ([], (CHR ''#'' # run) # found)
                        else (c # run, found))"

definition hashAnchors :: "string \<Rightarrow> string list" where
  "hashAnchors h = snd (scanAnchors h)"

definition isAnnotationLink :: "env \<Rightarrow> link \<Rightarrow> bool" where
  "isAnnotationLink e l = (isAnnotatedLink e l \<or> isAnnotationTransclude e l)"

definition anchorsForLink :: "env \<Rightarrow> link \<Rightarrow> string list" where
  "anchorsForLink e l =
     (if targetId l \<noteq> [] then map (\<lambda>x. ''#'' @ x) (splitOn (CHR '' '') (targetId l))
      else if \<not> isAnnotationLink e l \<and> url_hash (url l) \<noteq> [] then hashAnchors (url_hash (url l))
      else if \<not> isAnnotationLink e l \<and> backlinkTargetUrl l \<noteq> [] then [backlinkTargetUrl l]
      else [])"

definition isAnchorLink :: "env \<Rightarrow> link \<Rightarrow> bool" where
  "isAnchorLink e l = (length (anchorsForLink e l) = 1)"

text \<open>
  The backlink that a link with \<^verbatim>\<open>data-backlink-target-url\<close> points to: the first
  anchor element of the document, outside the page metadata and the auxiliary-links
  lists, that links to the target URL.
\<close>

definition containsString :: "string \<Rightarrow> string \<Rightarrow> bool" where
  "containsString s x = searchAt (prefix x) s"

definition backlinkSelector :: "string \<Rightarrow> node \<Rightarrow> bool" where
  "backlinkSelector target n =
     (hasTag ''a'' n \<and> \<not> hasClass ''backlink-not'' n
      \<and> ((case getAttribute n ''href'' of None \<Rightarrow> False | Some h \<Rightarrow> containsString h target)
         \<or> getAttribute n ''data-url-original'' = Some target))"

fun exclusionSelector :: "node list \<Rightarrow> bool" where
  "exclusionSelector [] = False"
| "exclusionSelector (n # up) =
     ((hasTag ''a'' n
       \<and> list_ex (\<lambda>a. elementId a = ''page-metadata'' \<or> hasClass ''aux-links-list'' a) up)
      \<or> exclusionSelector up)"

definition backlinkFilter :: "env \<Rightarrow> string \<Rightarrow> node \<times> node list \<Rightarrow> bool" where
  "backlinkFilter e target backlink =
     ((if startsWith target ''/''
       then (case anchorURL e (fst backlink) of None \<Rightarrow> [] | Some u \<Rightarrow> pathname u) = target
       else (case anchorURL e (fst backlink) of
               None \<Rightarrow> (case getAttribute (fst backlink) ''href'' of None \<Rightarrow> [] | Some h \<Rightarrow> h)
             | Some u \<Rightarrow> href u) = target
            \<or> getAttribute (fst backlink) ''data-url-original'' = Some target)
      \<and> \<not> exclusionSelector (fst backlink # snd backlink))"

definition targetElementInDocument :: "env \<Rightarrow> link \<Rightarrow> node list \<Rightarrow> (node \<times> node list) option" where
  "targetElementInDocument e l doc =
     (if \<not> isAnchorLink e l then None
      else (case anchorsForLink e l of
              [] \<Rightarrow> None
            | anchor # rest \<Rightarrow>
                (let element =
                       (if startsWith anchor ''#''
                        then querySelector (\<lambda>n. elementId n = idFromHash e anchor) doc
                        else None)
                 in if element = None \<and> backlinkTargetUrl l \<noteq> []
                    then find (backlinkFilter e (backlinkTargetUrl l))
                           (querySelectorAll (backlinkSelector (backlinkTargetUrl l)) [] doc)
                    else element)))"

text \<open>
  \<^verbatim>\<open>Notes.noteNumber\<close> of an element without a hash: the number in its id.
  \<^verbatim>\<open>/#[sf]n[0-9]/\<close> and \<^verbatim>\<open>/#fnref[0-9]/\<close> are searched anywhere in the string.
\<close>

definition noteHead :: "string \<Rightarrow> bool" where
  "noteHead s =
     (case s of
        a # b # c # d # rest \<Rightarrow>
          a = CHR ''#'' \<and> (b = CHR ''s'' \<or> b = CHR ''f'') \<and> c = CHR ''n'' \<and> isDigit d
      | _ \<Rightarrow> False)"

definition citationHead :: "string \<Rightarrow> bool" where
  "citationHead s =
     (prefix ''#fnref'' s \<and> (case drop 6 s of [] \<Rightarrow> False | d # rest \<Rightarrow> isDigit d))"

definition noteNumberFromHash :: "string \<Rightarrow> string" where
  "noteNumberFromHash h =
     (let hash = (if startsWith h ''#'' then h else ''#'' @ h) in
      if searchAt noteHead hash then drop 3 hash
      else if searchAt citationHead hash then drop 6 hash
      else [])"

definition noteNumber :: "node \<Rightarrow> string" where
  "noteNumber element = noteNumberFromHash (elementId element)"

text \<open>\<^verbatim>\<open>classList.remove(c)\<close>, followed by the removal of an empty class attribute.\<close>

fun removeClass :: "string \<Rightarrow> node \<Rightarrow> node" where
  "removeClass c (Text s) = Text s"
| "removeClass c (Element t as ks) =
     (let tokens = filter (\<lambda>x. x \<noteq> c) (rev (remdups (rev (classTokens (className (Element t as ks))))))
      in if map_of as ''class'' = None \<and> tokens = [] then Element t as ks
         else if tokens = [] then Element t (filter (\<lambda>(k, v). k \<noteq> ''class'') as) ks
         else Element t (map (\<lambda>(k, v). if k = ''class'' then (k, join '' '' tokens) else (k, v)) as) ks)"

record referenceData =
  referenceContent :: "node list"
  pageTitle :: "string option"
  pageBodyClasses :: "string list option"
  pageThumbnailHTML :: "string option"
  popFrameTitleLinkHref :: string
  popFrameTitleText :: string
  popFrameTitleTextShort :: "string option"

text \<open>
  The parts of the pop-frame title that name the target element: the footnote and its
  number, or the section mark and the title of the section, or else the hash of the
  link. Reading the text of the first element child of a section without element
  children throws.
\<close>

definition emptySpanWithId :: "node \<Rightarrow> bool" where
  "emptySpanWithId n =
     (hasTag ''span'' n \<and> getAttribute n ''id'' \<noteq> None \<and> list_all (\<lambda>k. k = Text []) (childNodes n))"

definition elementTitleParts :: "link \<Rightarrow> node \<times> node list \<Rightarrow> jsError + string list" where
  "elementTitleParts l element =
     (let nearestSection = closest (hasTag ''section'') element;
          nearestFootnote = closest (\<lambda>n. hasTag ''li'' n \<and> hasClass ''footnote'' n) element
      in case nearestFootnote of
           Some footnote \<Rightarrow>
             Inr ([''Footnote'', noteNumber footnote]
                  @ (case querySelector emptySpanWithId (childNodes footnote) of
                       None \<Rightarrow> []
                     | Some (identifyingSpan, up) \<Rightarrow> [''(#'' @ elementId identifyingSpan @ '')'']))
         | None \<Rightarrow>
             (case nearestSection of
                Some section \<Rightarrow>
                  if elementId section = ''footnotes'' then Inr [''&#x00a7;'', ''Footnotes'']
                  else (case firstElementChild section of
                          None \<Rightarrow> Inl TypeError
                        | Some heading \<Rightarrow> Inr [''&#x00a7;'', textContent heading])
              | None \<Rightarrow> Inr [url_hash (url l)]))"

text \<open>
  The page content: a copy of the page metadata block, if any, without the class
  \<^verbatim>\<open>markdownBody\<close>, followed by the child nodes of the main content block (reading
  them throws when the page has no such block).
\<close>

definition pageContentOf :: "env \<Rightarrow> content \<Rightarrow> jsError + node list" where
  "pageContentOf e page =
     (let nodes = documentNodes e (document page);
          metadataBlock = (case querySelector (\<lambda>n. elementId n = ''page-metadata'') nodes of
                             None \<Rightarrow> []
                           | Some (pageMetadataBlock, up) \<Rightarrow>
                               [removeClass ''markdownBody'' pageMetadataBlock])
      in case querySelector (\<lambda>n. elementId n = ''markdownBody'') nodes of
           None \<Rightarrow> Inl TypeError
         | Some (markdownBody, up) \<Rightarrow> Inr (metadataBlock @ childNodes markdownBody))"

definition localPage_referenceDataFromContent :: "env \<Rightarrow> content \<Rightarrow> link \<Rightarrow> jsError + referenceData" where
  "localPage_referenceDataFromContent e page l =
     (case pageContentOf e page of
        Inl err \<Rightarrow> Inl err
      | Inr pageContent \<Rightarrow>
             (let element = targetElementInDocument e l pageContent;
                  titleParts = (if pathname (url l) \<noteq> pathname (location e)
                                then [case title page of None \<Rightarrow> [] | Some t \<Rightarrow> t] else [])
              in case (case element of
                         None \<Rightarrow> Inr []
                       | Some found \<Rightarrow> elementTitleParts l found) of
                   Inl err \<Rightarrow> Inl err
                 | Inr elementParts \<Rightarrow>
                     (let popFrameTitleTextParts = titleParts @ elementParts in
                      Inr \<lparr>referenceContent = pageContent,
                           pageTitle = title page,
                           pageBodyClasses = bodyClasses page,
                           pageThumbnailHTML = thumbnailHTML page,
                           popFrameTitleLinkHref = href (url l),
                           popFrameTitleText = join '' '' popFrameTitleTextParts,
                           popFrameTitleTextShort =
                             (case popFrameTitleTextParts of [] \<Rightarrow> None | p # ps \<Rightarrow> Some p)\<rparr>)))"

section \<open>Properties and example inputs\<close>

subsection \<open>Notification center\<close>

text \<open>No array of handlers holds a handler twice.\<close>

definition no_duplicates :: "center \<Rightarrow> bool" where
  "no_duplicates nc = (\<forall>a. distinct (arrays nc a))"

text \<open>
  No handler function changes which array is registered for the event, nor the
  contents of that array.
\<close>

definition leaves_event_alone :: "(nat \<Rightarrow> handlerObject) \<Rightarrow> string \<Rightarrow> bool" where
  "leaves_event_alone H eventName =
     (\<forall>h nc. slots (handler_f (H h) nc) eventName = slots nc eventName \<and>
             (\<forall>a. slots nc eventName = Some a \<longrightarrow>
                  arrays (handler_f (H h) nc) a = arrays nc a))"

text \<open>
  Three handlers registered for one event, none of them \<^verbatim>\<open>once\<close>. In
  \<open>quietHandlers\<close> no function touches the notification center; in
  \<open>reentrantHandlers\<close> the function of handler 2 cancels handler 1 and registers it
  again.
\<close>

definition threeHandlers :: center where
  "threeHandlers =
     addHandlerForEvent ''e'' 3 (addHandlerForEvent ''e'' 2 (addHandlerForEvent ''e'' 1 emptyCenter))"

definition quietHandlers :: "nat \<Rightarrow> handlerObject" where
  "quietHandlers h = \<lparr>handler_f = (\<lambda>nc. nc), handler_once = (h = 1)\<rparr>"

definition reentrantHandlers :: "nat \<Rightarrow> handlerObject" where
  "reentrantHandlers h =
     \<lparr>handler_f = (if h = 2
                   then (\<lambda>nc. addHandlerForEvent ''e'' 1 (cancelHandlerForEvent ''e'' 1 nc))
                   else (\<lambda>nc. nc)),
      handler_once = False\<rparr>"

subsection \<open>An example site\<close>

text \<open>
  The current page is \<^verbatim>\<open>https://gwern.net/index\<close>. Its document has a title, the body
  classes, a thumbnail and a main content block with two sections and the footnotes.
  The functions of the environment are simple ones: an annotated link has the class
  \<^verbatim>\<open>link-annotated\<close>, the HTML parser knows the markup of one feed and makes a text
  node of any other input, the serializer gives the text of a node, the URL parser
  knows the URL of the thumbnail, and \<^verbatim>\<open>selectorFromHash\<close> selects the id that
  follows the \<^verbatim>\<open>#\<close>.
\<close>

definition site :: url where
  "site = \<lparr>protocol = ''https:'', hostname = ''gwern.net'', port = [], pathname = ''/index'',
           query = None, fragment = None\<rparr>"

definition linkTo :: "string \<Rightarrow> string option \<Rightarrow> link" where
  "linkTo path frag =
     \<lparr>url = site\<lparr>pathname := path, fragment := frag\<rparr>, classList = [], urlOriginal = None,
      targetId = [], backlinkTargetUrl = []\<rparr>"

definition exampleBody :: "node list" where
  "exampleBody =
     [Element ''section'' [(''id'', ''section-3''), (''class'', ''level1'')]
        [Element ''h1'' [] [Text ''Third section''],
         Element ''p'' [(''id'', ''para-7'')] [Text ''Some text.'']],
      Element ''p'' [(''id'', ''loose'')] [Text ''Outside of any section.''],
      Element ''section'' [(''id'', ''footnotes''), (''class'', ''footnotes'')]
        [Element ''h1'' [] [Text ''Endnotes''],
         Element ''ol'' []
           [Element ''li'' [(''id'', ''fn1''), (''class'', ''footnote'')]
              [Element ''p'' [(''id'', ''fn1-text'')] [Text ''A note.'']]]]]"

definition exampleDocument :: "node list" where
  "exampleDocument =
     [Element ''html'' []
        [Element ''head'' []
           [Element ''title'' [] [Text (''Index'' @ siteSuffix)],
            Element ''meta'' [(''name'', ''page-body-classes''), (''content'', ''page-index'')] [],
            Element ''meta'' [(''property'', ''og:image''),
                              (''content'', ''https://gwern.net/doc/thumb.png'')] [],
            Element ''meta'' [(''property'', ''og:image:width''), (''content'', ''640'')] [],
            Element ''meta'' [(''property'', ''og:image:height''), (''content'', ''480'')] []],
         Element ''body'' []
           [Element ''div'' [(''id'', ''markdownBody''), (''class'', ''markdownBody'')]
              exampleBody]]]"

definition exampleEnv :: env where
  "exampleEnv =
     \<lparr>location = site,
      liveNodes = exampleDocument,
      isAnnotatedLinkFull = (\<lambda>l. ''link-annotated'' \<in> set (classList l)),
      isAnnotatedLink = (\<lambda>l. ''link-annotated'' \<in> set (classList l)),
      isAnnotationTransclude = (\<lambda>l. False),
      parseHTML = (\<lambda>html. if html = ''<rss><channel></channel></rss>''
                          then [Element ''rss'' [] [Element ''channel'' [] []]]
                          else [Text html]),
      innerHTML = textContent,
      parseURL = (\<lambda>s. if s = ''https://gwern.net/doc/thumb.png''
                        then Some (site\<lparr>pathname := ''/doc/thumb.png''\<rparr>) else None),
      idFromHash = drop 1,
      anchorURL = (\<lambda>n. None),
      includeLink = None,
      markAuxLinksList = (\<lambda>linkType loadURL fragment. Some fragment)\<rparr>"

text \<open>A link with another query and fragment, and nothing else changed.\<close>

definition withQueryAndFragment :: "link \<Rightarrow> string option \<Rightarrow> string option \<Rightarrow> link" where
  "withQueryAndFragment l q f = l\<lparr>url := (url l)\<lparr>query := q, fragment := f\<rparr>\<rparr>"

subsection \<open>Loader\<close>

text \<open>The events that announce a failed load.\<close>

fun isLoadFailure :: "event \<Rightarrow> bool" where
  "isLoadFailure (Content_contentLoadDidFail l) = True"
| "isLoadFailure (Content_contentDidLoad l) = False"
| "isLoadFailure (GW_contentDidLoad source d loc) = False"

definition injected :: "parsed \<Rightarrow> event list" where
  "injected p = map (\<lambda>(source, d, loc). GW_contentDidLoad source d loc) (parsedEvents p)"

definition emptyState :: state where
  "emptyState = \<lparr>cachedContent = (\<lambda>key. None), requests = [], fired = [], serverLog = [],
                  handlerCalls = [], waiting = []\<rparr>"

text \<open>
  States in which the page \<^verbatim>\<open>/essay\<close> has a cached result: a content whose document
  has the body of the example page, and the failure marker.
\<close>

definition essayContent :: content where
  "essayContent =
     \<lparr>document = Fragment [Element ''div'' [(''id'', ''markdownBody'')] exampleBody]
                   (Some (site\<lparr>pathname := ''/essay''\<rparr>)),
      title = Some ''Essay'', bodyClasses = Some [''page-essay''], thumbnailHTML = None\<rparr>"

definition essayLoaded :: state where
  "essayLoaded = emptyState\<lparr>cachedContent := [''https://gwern.net/essay'' \<mapsto> Loaded essayContent]\<rparr>"

definition essayFailed :: state where
  "essayFailed = emptyState\<lparr>cachedContent := [''https://gwern.net/essay'' \<mapsto> LOADING_FAILED]\<rparr>"

text \<open>A content type whose \<^verbatim>\<open>contentFromResponse\<close> returns \<^verbatim>\<open>null\<close> for every response.\<close>

definition unprocessable :: contentType where
  "unprocessable =
     \<lparr>typeName = ''unprocessable'',
      matches = (\<lambda>e l. True),
      sourceURLsForLink = singleSourceURL,
      contentFromResponse = (\<lambda>e response l loadURL.
         Inr \<lparr>parsedValue = None, parsedEvents = [], parsedRequests = []\<rparr>),
      permittedContentTypes = Some [''text/html'']\<rparr>"

text \<open>
  The archived page of a tweet as the current page, and a link to it that carries the
  URL of the tweet in \<^verbatim>\<open>data-url-original\<close>.
\<close>

definition tweetPath :: string where
  "tweetPath = ''/doc/www/twitter.com/gwern/status/1234567''"

definition tweetEnv :: env where
  "tweetEnv = exampleEnv\<lparr>location := site\<lparr>pathname := tweetPath\<rparr>\<rparr>"

definition tweetLink :: link where
  "tweetLink =
     \<lparr>url = site\<lparr>pathname := tweetPath\<rparr>, classList = [],
      urlOriginal = Some (site\<lparr>hostname := ''twitter.com'', pathname := ''/gwern/status/1234567''\<rparr>),
      targetId = [], backlinkTargetUrl = []\<rparr>"

text \<open>A link to a code file (used in the classification examples).\<close>

definition codeLink :: link where
  "codeLink = linkTo ''/static/build/hakyll.hs'' None"

text \<open>
  A link to a code file that is markup, its two source URLs (the highlighted version
  first, then the file itself), and the text of the file.
\<close>

definition feedLink :: link where
  "feedLink = linkTo ''/static/feed.xml'' None"

definition feedHighlightedURL :: url where
  "feedHighlightedURL = site\<lparr>pathname := ''/static/feed.xml.html''\<rparr>"

definition feedURL :: url where
  "feedURL = site\<lparr>pathname := ''/static/feed.xml''\<rparr>"

definition feedText :: string where
  "feedText = ''<rss><channel></channel></rss>''"

text \<open>A link to the backlinks fragment of a page.\<close>

definition backlinksLink :: link where
  "backlinksLink = linkTo ''/metadata/annotation/backlink/%252Fessay.html'' None"

text \<open>What the parser of a local page makes of the document of the example page.\<close>

definition indexContent :: content where
  "indexContent =
     \<lparr>document = LiveDocument,
      title = Some ''Index'',
      bodyClasses = Some [''page-index''],
      thumbnailHTML =
        Some (imgTag ''https://gwern.net/doc/thumb.png''
                (''Thumbnail image for '' @ [CHR 0xE2, CHR 0x80, CHR 0x9C] @ ''Index''
                 @ [CHR 0xE2, CHR 0x80, CHR 0x9D])
                ''640'' ''480'')\<rparr>"

definition indexParsed :: parsed where
  "indexParsed =
     \<lparr>parsedValue = Some indexContent, parsedEvents = [],
      parsedRequests = [''https://gwern.net/doc/thumb.png'']\<rparr>"

fun isContentRequest :: "request \<Rightarrow> bool" where
  "isContentRequest (ContentRequest l u remaining) = True"
| "isContentRequest (Prefetch loc) = False"

subsection \<open>Reference data\<close>

text \<open>
  Two elements of the example body with their ancestors: the paragraph \<^verbatim>\<open>para-7\<close>
  in the third section, and the section of the footnotes.
\<close>

definition para7 :: "node \<times> node list" where
  "para7 = (Element ''p'' [(''id'', ''para-7'')] [Text ''Some text.''],
            [Element ''section'' [(''id'', ''section-3''), (''class'', ''level1'')]
               [Element ''h1'' [] [Text ''Third section''],
                Element ''p'' [(''id'', ''para-7'')] [Text ''Some text.'']]])"

definition footnotesSection :: node where
  "footnotesSection =
     Element ''section'' [(''id'', ''footnotes''), (''class'', ''footnotes'')]
        [Element ''h1'' [] [Text ''Endnotes''],
         Element ''ol'' []
           [Element ''li'' [(''id'', ''fn1''), (''class'', ''footnote'')]
              [Element ''p'' [(''id'', ''fn1-text'')] [Text ''A note.'']]]]"

section \<open>The notification center: registration and dispatch\<close>

lemma addHandlerForEvent_twice:
  "addHandlerForEvent e h (addHandlerForEvent e h nc) = addHandlerForEvent e h nc"
  by (cases "slots nc e") (simp_all add: addHandlerForEvent_def ensureArray_def Let_def)

lemma no_duplicates_empty: "no_duplicates emptyCenter"
  by (simp add: no_duplicates_def emptyCenter_def)

lemma no_duplicates_add:
  "no_duplicates nc \<Longrightarrow> no_duplicates (addHandlerForEvent e h nc)"
  by (cases "slots nc e")
     (simp_all add: no_duplicates_def addHandlerForEvent_def ensureArray_def Let_def)

lemma no_duplicates_cancel:
  "no_duplicates nc \<Longrightarrow> no_duplicates (cancelHandlerForEvent e h nc)"
  by (cases "slots nc e")
     (simp_all add: no_duplicates_def cancelHandlerForEvent_def array_remove_def)

lemma no_duplicates_cancelAll:
  "no_duplicates nc \<Longrightarrow> no_duplicates (cancelAllHandlersForEvent e nc)"
  by (simp add: no_duplicates_def cancelAllHandlersForEvent_def)

lemma forEach_handler_done:
  "\<not> k < len \<Longrightarrow> forEach_handler H e a k len nc called = (nc, called)"
  by (subst forEach_handler.simps) simp

lemma forEach_handler_skip:
  "k < len \<Longrightarrow> \<not> k < length (arrays nc a) \<Longrightarrow>
   forEach_handler H e a k len nc called = forEach_handler H e a (Suc k) len nc called"
  by (subst forEach_handler.simps) simp

lemma forEach_handler_call:
  "k < len \<Longrightarrow> k < length (arrays nc a) \<Longrightarrow>
   forEach_handler H e a k len nc called =
     forEach_handler H e a (Suc k) len
       (if handler_once (H (arrays nc a ! k))
        then cancelHandlerForEvent e (arrays nc a ! k) (handler_f (H (arrays nc a ! k)) nc)
        else handler_f (H (arrays nc a ! k)) nc)
       (called @ [arrays nc a ! k])"
  by (subst forEach_handler.simps) (simp add: Let_def)

declare forEach_handler.simps [simp del]

text \<open>Deleting an element moves the later elements one place to the front.\<close>

lemma set_drop_remove1: "set (drop n (remove1 x xs)) \<subseteq> set (drop n xs)"
proof (induction xs arbitrary: n)
  case Nil
  then show ?case by simp
next
  case (Cons y ys)
  show ?case
  proof (cases n)
    case 0
    then show ?thesis using set_remove1_subset [of x "y # ys"] by simp
  next
    case (Suc m)
    then show ?thesis
      using Cons.IH [of m] set_drop_subset_set_drop [of m "Suc m" ys] by auto
  qed
qed

text \<open>
  The invariant of the loop: the handlers called so far are distinct, and none of them
  is at the index \<open>k\<close> or later in the array.
\<close>

lemma forEach_handler_distinct:
  "leaves_event_alone H e \<Longrightarrow> slots nc e = Some a \<Longrightarrow> distinct (arrays nc a) \<Longrightarrow>
   distinct called \<Longrightarrow> set called \<inter> set (drop k (arrays nc a)) = {} \<Longrightarrow>
   distinct (snd (forEach_handler H e a k len nc called))"
proof (induction H e a k len nc called rule: forEach_handler.induct)
  case (1 H e a k len nc called)
  show ?case
  proof (cases "k < len")
    case False
    then show ?thesis using "1.prems" by (simp add: forEach_handler_done)
  next
    case klen: True
    show ?thesis
    proof (cases "k < length (arrays nc a)")
      case False
      have "distinct (snd (forEach_handler H e a (Suc k) len nc called))"
        using "1.IH"(2) [OF klen False] "1.prems" False by simp
      then show ?thesis using klen False by (simp add: forEach_handler_skip)
    next
      case True
      define h where "h = arrays nc a ! k"
      define nc1 where "nc1 = handler_f (H h) nc"
      define nc2 where
        "nc2 = (if handler_once (H h) then cancelHandlerForEvent e h nc1 else nc1)"
      have fr: "slots nc1 e = Some a" "arrays nc1 a = arrays nc a"
        using "1.prems"(1,2) by (simp_all add: leaves_event_alone_def nc1_def)
      have s2: "slots nc2 e = Some a"
        using fr by (simp add: nc2_def cancelHandlerForEvent_def)
      have a2: "arrays nc2 a
                  = (if handler_once (H h) then remove1 h (arrays nc a) else arrays nc a)"
        using fr by (simp add: nc2_def cancelHandlerForEvent_def array_remove_def)
      have d2: "distinct (arrays nc2 a)"
        using a2 "1.prems"(3) by simp
      have split: "drop k (arrays nc a) = h # drop (Suc k) (arrays nc a)"
        using True by (simp add: h_def Cons_nth_drop_Suc)
      have hnot: "h \<notin> set called" using split "1.prems"(5) by auto
      have dc: "distinct (called @ [h])" using hnot "1.prems"(4) by simp
      have sub: "set (drop (Suc k) (arrays nc2 a)) \<subseteq> set (drop (Suc k) (arrays nc a))"
        using a2 set_drop_remove1 [of "Suc k" h "arrays nc a"] by simp
      have "distinct (drop k (arrays nc a))"
        using "1.prems"(3) by simp
      then have hlater: "h \<notin> set (drop (Suc k) (arrays nc a))"
        using split by simp
      have disj: "set (called @ [h]) \<inter> set (drop (Suc k) (arrays nc2 a)) = {}"
        using sub split hlater "1.prems"(5) by auto
      have "distinct (snd (forEach_handler H e a (Suc k) len nc2 (called @ [h])))"
        using "1.IH"(1) [OF klen True h_def nc1_def nc2_def "1.prems"(1) s2 d2 dc disj] .
      then show ?thesis
        unfolding forEach_handler_call [OF klen True] nc2_def nc1_def h_def .
    qed
  qed
qed

lemma fireEvent_distinct:
  "leaves_event_alone H e \<Longrightarrow> no_duplicates nc \<Longrightarrow> distinct (snd (fireEvent H e nc))"
  by (cases "slots nc e")
     (simp_all add: fireEvent_def no_duplicates_def forEach_handler_distinct)

lemma forEach_handler_no_duplicates:
  "(\<forall>h s. no_duplicates s \<longrightarrow> no_duplicates (handler_f (H h) s)) \<Longrightarrow> no_duplicates nc \<Longrightarrow>
   no_duplicates (fst (forEach_handler H e a k len nc called))"
proof (induction H e a k len nc called rule: forEach_handler.induct)
  case (1 H e a k len nc called)
  show ?case
  proof (cases "k < len")
    case False
    then show ?thesis using "1.prems" by (simp add: forEach_handler_done)
  next
    case klen: True
    show ?thesis
    proof (cases "k < length (arrays nc a)")
      case False
      then show ?thesis
        using "1.IH"(2) [OF klen False "1.prems"] klen by (simp add: forEach_handler_skip)
    next
      case True
      define h where "h = arrays nc a ! k"
      define nc1 where "nc1 = handler_f (H h) nc"
      define nc2 where
        "nc2 = (if handler_once (H h) then cancelHandlerForEvent e h nc1 else nc1)"
      have "no_duplicates nc1"
        using "1.prems" by (simp add: nc1_def)
      then have "no_duplicates nc2"
        by (simp add: nc2_def no_duplicates_cancel)
      then have "no_duplicates (fst (forEach_handler H e a (Suc k) len nc2 (called @ [h])))"
        using "1.IH"(1) [OF klen True h_def nc1_def nc2_def "1.prems"(1)] by simp
      then show ?thesis
        unfolding forEach_handler_call [OF klen True] nc2_def nc1_def h_def .
    qed
  qed
qed

lemma fireEvent_no_duplicates:
  "(\<forall>h s. no_duplicates s \<longrightarrow> no_duplicates (handler_f (H h) s)) \<Longrightarrow> no_duplicates nc \<Longrightarrow>
   no_duplicates (fst (fireEvent H e nc))"
  by (cases "slots nc e") (simp_all add: fireEvent_def forEach_handler_no_duplicates)

lemma no_duplicates_threeHandlers: "no_duplicates threeHandlers"
  unfolding threeHandlers_def
  by (intro no_duplicates_add no_duplicates_empty)

lemma leaves_event_alone_quiet: "leaves_event_alone quietHandlers e"
  by (simp add: leaves_event_alone_def quietHandlers_def)

text \<open>
  Claim C10, as the code has it. Registering a handler that is already registered for
  the event changes nothing. The empty center has no duplicates; registering,
  cancelling and firing keep it so (firing, as long as the handler functions do). And
  \<^verbatim>\<open>fireEvent\<close> calls no handler twice, provided that no handler function changes the
  handler list of the event that is being fired.
\<close>

theorem addHandlerForEvent_idempotent_no_duplicates:
  "addHandlerForEvent e h (addHandlerForEvent e h nc) = addHandlerForEvent e h nc
   \<and> no_duplicates emptyCenter
   \<and> (no_duplicates nc \<longrightarrow>
        no_duplicates (addHandlerForEvent e h nc)
        \<and> no_duplicates (cancelHandlerForEvent e h nc)
        \<and> no_duplicates (cancelAllHandlersForEvent e nc))
   \<and> (no_duplicates nc \<and> (\<forall>h s. no_duplicates s \<longrightarrow> no_duplicates (handler_f (H h) s)) \<longrightarrow>
        no_duplicates (fst (fireEvent H e nc)))
   \<and> (no_duplicates nc \<and> leaves_event_alone H e \<longrightarrow> distinct (snd (fireEvent H e nc)))"
proof (intro conjI impI)
  show "addHandlerForEvent e h (addHandlerForEvent e h nc) = addHandlerForEvent e h nc"
    by (rule addHandlerForEvent_twice)
  show "no_duplicates emptyCenter"
    by (rule no_duplicates_empty)
  show "no_duplicates (addHandlerForEvent e h nc)" if "no_duplicates nc"
    using that by (rule no_duplicates_add)
  show "no_duplicates (cancelHandlerForEvent e h nc)" if "no_duplicates nc"
    using that by (rule no_duplicates_cancel)
  show "no_duplicates (cancelAllHandlersForEvent e nc)" if "no_duplicates nc"
    using that by (rule no_duplicates_cancelAll)
  show "no_duplicates (fst (fireEvent H e nc))"
    if "no_duplicates nc \<and> (\<forall>h s. no_duplicates s \<longrightarrow> no_duplicates (handler_f (H h) s))"
    using that fireEvent_no_duplicates [of H nc e] by simp
  show "distinct (snd (fireEvent H e nc))" if "no_duplicates nc \<and> leaves_event_alone H e"
    using that fireEvent_distinct [of H e nc] by simp
qed

theorem addHandlerForEvent_idempotent_no_duplicates_witness:
  "no_duplicates threeHandlers \<and> leaves_event_alone quietHandlers ''e''
   \<and> addHandlerForEvent ''e'' 2 threeHandlers = threeHandlers
   \<and> no_duplicates (addHandlerForEvent ''e'' 2 threeHandlers)
   \<and> distinct (snd (fireEvent quietHandlers ''e'' threeHandlers))
   \<and> snd (fireEvent quietHandlers ''e'' threeHandlers) = [1, 3]"
proof -
  note th = addHandlerForEvent_idempotent_no_duplicates
  have a: "addHandlerForEvent ''e'' 2 threeHandlers = threeHandlers"
    using th [of "''e''" 2 "addHandlerForEvent ''e'' 1 emptyCenter" quietHandlers, THEN conjunct1]
    by (simp add: threeHandlers_def addHandlerForEvent_def ensureArray_def emptyCenter_def)
  have b: "snd (fireEvent quietHandlers ''e'' threeHandlers) = [1, 3]"
    by (simp add: threeHandlers_def fireEvent_def addHandlerForEvent_def ensureArray_def
        emptyCenter_def quietHandlers_def cancelHandlerForEvent_def array_remove_def
        forEach_handler.simps)
  have c: "no_duplicates (addHandlerForEvent ''e'' 2 threeHandlers)"
    using th [of "''e''" 2 threeHandlers quietHandlers, THEN conjunct2, THEN conjunct2,
              THEN conjunct1] no_duplicates_threeHandlers
    by simp
  have d: "distinct (snd (fireEvent quietHandlers ''e'' threeHandlers))"
    using th [of "''e''" 2 threeHandlers quietHandlers, THEN conjunct2, THEN conjunct2,
              THEN conjunct2, THEN conjunct2]
      no_duplicates_threeHandlers leaves_event_alone_quiet [of "''e''"]
    by simp
  show ?thesis
    using no_duplicates_threeHandlers leaves_event_alone_quiet [of "''e''"] a b c d by simp
qed

text \<open>
  Claim C10 as stated fails when a handler function changes the handler list of the
  event being fired: with the handlers 1, 2, 3 registered, none of them twice, handler
  2 cancels handler 1 and registers it again, which puts it at the end of the array; the
  loop of \<^verbatim>\<open>fireEvent\<close> then calls handler 1 a second time (and does not reach
  handler 3).
\<close>

theorem fireEvent_calls_handler_twice:
  "arrays threeHandlers 0 = [1, 2, 3]
   \<and> snd (fireEvent reentrantHandlers ''e'' threeHandlers) = [1, 2, 1]"
  by (simp add: threeHandlers_def fireEvent_def addHandlerForEvent_def ensureArray_def
      emptyCenter_def reentrantHandlers_def cancelHandlerForEvent_def array_remove_def
      forEach_handler.simps)

section \<open>Classification and cache keys\<close>

lemma contentTypeForLink_None:
  "(contentTypeForLink types e l = None) = (\<forall>ct \<in> set types. \<not> matches ct e l)"
  by (induction types) auto

lemma contentTypeForLink_Some:
  "contentTypeForLink types e l = Some ct \<Longrightarrow>
   \<exists>i < length types. types ! i = ct \<and> matches ct e l \<and> (\<forall>j < i. \<not> matches (types ! j) e l)"
proof (induction types)
  case Nil
  then show ?case by simp
next
  case (Cons a types)
  show ?case
  proof (cases "matches a e l")
    case True
    then have "ct = a" using Cons.prems by simp
    then have "(a # types) ! 0 = ct \<and> matches ct e l \<and> (\<forall>j < 0. \<not> matches ((a # types) ! j) e l)"
      using True by simp
    then show ?thesis by blast
  next
    case False
    then have "contentTypeForLink types e l = Some ct" using Cons.prems by simp
    then obtain i where i: "i < length types" "types ! i = ct" "matches ct e l"
      "\<forall>j < i. \<not> matches (types ! j) e l"
      using Cons.IH by blast
    have "\<forall>j < Suc i. \<not> matches ((a # types) ! j) e l"
    proof (intro allI impI)
      fix j assume "j < Suc i"
      then show "\<not> matches ((a # types) ! j) e l"
        using False i(4) by (cases j) auto
    qed
    then have "Suc i < length (a # types) \<and> (a # types) ! Suc i = ct \<and> matches ct e l
               \<and> (\<forall>j < Suc i. \<not> matches ((a # types) ! j) e l)"
      using i by simp
    then show ?thesis by blast
  qed
qed

text \<open>
  Claim C7. The registry lists the four content types in the order of registration.
  \<^verbatim>\<open>Content.contentTypeForLink\<close> returns \<^verbatim>\<open>null\<close> exactly when no content type
  matches the link, and otherwise the content type at the first index whose
  \<^verbatim>\<open>matches\<close> holds. The result is a function of the link and the environment
  alone: neither the cache nor any other state is read or changed, so that a repeated
  call returns the same content type.
\<close>

theorem contentTypeForLink_first_match:
  "map typeName Content_contentTypes
     = [''localTweetArchive'', ''localCodeFile'', ''localFragment'', ''localPage'']
   \<and> ((contentTypeForLink Content_contentTypes e l = None)
        = (\<forall>ct \<in> set Content_contentTypes. \<not> matches ct e l))
   \<and> (\<forall>ct. contentTypeForLink Content_contentTypes e l = Some ct \<longrightarrow>
          (\<exists>i < length Content_contentTypes.
              Content_contentTypes ! i = ct \<and> matches ct e l
              \<and> (\<forall>j < i. \<not> matches (Content_contentTypes ! j) e l)))"
proof -
  have "map typeName Content_contentTypes
     = [''localTweetArchive'', ''localCodeFile'', ''localFragment'', ''localPage'']"
    by (simp add: Content_contentTypes_def localTweetArchive_def localCodeFile_def
        localFragment_def localPage_def)
  then show ?thesis
    using contentTypeForLink_None [of Content_contentTypes e l]
      contentTypeForLink_Some [of Content_contentTypes e l] by blast
qed

lemma matches_simps:
  "matches localTweetArchive = localTweetArchive_matches"
  "matches localCodeFile = localCodeFile_matches"
  "matches localFragment = localFragment_matches"
  "matches localPage = localPage_matches"
  by (simp_all add: localTweetArchive_def localCodeFile_def localFragment_def localPage_def)

lemma sourceURLs_simps:
  "sourceURLsForLink localTweetArchive = singleSourceURL"
  "sourceURLsForLink localCodeFile = localCodeFile_sourceURLsForLink"
  "sourceURLsForLink localFragment = singleSourceURL"
  "sourceURLsForLink localPage = singleSourceURL"
  by (simp_all add: localTweetArchive_def localCodeFile_def localFragment_def localPage_def)

lemma contentTypeForLink_registry:
  "contentTypeForLink Content_contentTypes e l =
     (if localTweetArchive_matches e l then Some localTweetArchive
      else if localCodeFile_matches e l then Some localCodeFile
      else if localFragment_matches e l then Some localFragment
      else if localPage_matches e l then Some localPage
      else None)"
  by (simp add: Content_contentTypes_def matches_simps)

lemma example_site_simps:
  "hostname site = ''gwern.net''" "pathname site = ''/index''"
  "location exampleEnv = site"
  "url (linkTo path frag) = site\<lparr>pathname := path, fragment := frag\<rparr>"
  "classList (linkTo path frag) = []" "urlOriginal (linkTo path frag) = None"
  "targetId (linkTo path frag) = []" "backlinkTargetUrl (linkTo path frag) = []"
  "isAnnotatedLinkFull exampleEnv l = (''link-annotated'' \<in> set (classList l))"
  by (simp_all add: site_def exampleEnv_def linkTo_def)

lemma codeLink_classified:
  "contentTypeForLink Content_contentTypes exampleEnv (linkTo ''/static/build/hakyll.hs'' None)
     = Some localCodeFile"
  by (simp add: contentTypeForLink_registry localTweetArchive_matches_def
      localCodeFile_matches_def originalURLForLink_def example_site_simps startsWith_def
      endsWith_def endsWithExtension_def codeFileExtensions_def toLowerASCII_def)

theorem contentTypeForLink_first_match_witness:
  "contentTypeForLink Content_contentTypes exampleEnv (linkTo ''/static/build/hakyll.hs'' None)
     = Some localCodeFile
   \<and> (\<exists>i < length Content_contentTypes.
         Content_contentTypes ! i = localCodeFile
         \<and> matches localCodeFile exampleEnv (linkTo ''/static/build/hakyll.hs'' None)
         \<and> (\<forall>j < i. \<not> matches (Content_contentTypes ! j) exampleEnv
                               (linkTo ''/static/build/hakyll.hs'' None)))"
  using contentTypeForLink_first_match
          [of exampleEnv "linkTo ''/static/build/hakyll.hs'' None"]
        codeLink_classified
  by simp

lemma withQF_simps:
  "hostname (url (withQueryAndFragment l q f)) = hostname (url l)"
  "pathname (url (withQueryAndFragment l q f)) = pathname (url l)"
  "classList (withQueryAndFragment l q f) = classList l"
  "clearHashAndSearch (url (withQueryAndFragment l q f)) = clearHashAndSearch (url l)"
  by (simp_all add: withQueryAndFragment_def clearHashAndSearch_def)

lemma originalURL_withQF:
  "hostname (originalURLForLink (withQueryAndFragment l q f)) = hostname (originalURLForLink l)"
  "pathname (originalURLForLink (withQueryAndFragment l q f)) = pathname (originalURLForLink l)"
  by (simp_all add: originalURLForLink_def withQueryAndFragment_def split: option.splits)

lemma tweet_withQF:
  "localTweetArchive_matches e (withQueryAndFragment l q f) = localTweetArchive_matches e l"
  by (simp add: localTweetArchive_matches_def withQF_simps originalURL_withQF Let_def)

lemma sources_withQF:
  "singleSourceURL (withQueryAndFragment l q f) = singleSourceURL l"
  "localCodeFile_sourceURLsForLink (withQueryAndFragment l q f) = localCodeFile_sourceURLsForLink l"
  by (simp_all add: singleSourceURL_def localCodeFile_sourceURLsForLink_def withQF_simps)

text \<open>
  Claim C9. Two links that differ in their query and fragment only, both matched by a
  registered content type, have the same cache key.
\<close>

theorem cache_key_ignores_hash_and_search:
  assumes "contentTypeForLink Content_contentTypes e l \<noteq> None"
    and "contentTypeForLink Content_contentTypes e (withQueryAndFragment l q f) \<noteq> None"
  shows "Content_contentCacheKeyForLink Content_contentTypes e (withQueryAndFragment l q f)
           = Content_contentCacheKeyForLink Content_contentTypes e l
         \<and> (\<exists>key. Content_contentCacheKeyForLink Content_contentTypes e l = Inr key)"
proof (cases "localTweetArchive_matches e l")
  case True
  then show ?thesis
    by (simp add: Content_contentCacheKeyForLink_def Content_sourceURLsForLink_def
        contentTypeForLink_registry tweet_withQF sourceURLs_simps sources_withQF)
       (simp add: singleSourceURL_def withQF_simps)
next
  case False
  have a: "\<not> isAnnotatedLinkFull e l"
    using assms(1) False
    by (auto simp: contentTypeForLink_registry localCodeFile_matches_def
        localFragment_matches_def localPage_matches_def split: if_splits)
  have a': "\<not> isAnnotatedLinkFull e (withQueryAndFragment l q f)"
    using assms(2) False
    by (auto simp: contentTypeForLink_registry tweet_withQF localCodeFile_matches_def
        localFragment_matches_def localPage_matches_def split: if_splits)
  have c: "localCodeFile_matches e (withQueryAndFragment l q f) = localCodeFile_matches e l"
    using a a' by (simp add: localCodeFile_matches_def withQF_simps)
  have fr: "localFragment_matches e (withQueryAndFragment l q f) = localFragment_matches e l"
    using a a' by (simp add: localFragment_matches_def withQF_simps)
  have pg: "localPage_matches e (withQueryAndFragment l q f) = localPage_matches e l"
    using a a' by (simp add: localPage_matches_def withQF_simps)
  show ?thesis
    using assms(1)
    by (simp add: Content_contentCacheKeyForLink_def Content_sourceURLsForLink_def
        contentTypeForLink_registry tweet_withQF c fr pg sourceURLs_simps sources_withQF
        singleSourceURL_def localCodeFile_sourceURLsForLink_def Let_def withQF_simps
        split: if_splits)
qed

lemma essayLink_classified:
  "contentTypeForLink Content_contentTypes exampleEnv (linkTo ''/essay'' frag) = Some localPage"
  by (simp add: contentTypeForLink_registry localTweetArchive_matches_def
      localCodeFile_matches_def localFragment_matches_def localPage_matches_def
      originalURLForLink_def example_site_simps startsWith_def
      endsWith_def endsWithExtension_def codeFileExtensions_def toLowerASCII_def)

lemma essayLink_withQF_classified:
  "contentTypeForLink Content_contentTypes exampleEnv
     (withQueryAndFragment (linkTo ''/essay'' None) (Some ''v=2'') (Some ''section-3''))
     = Some localPage"
  by (simp add: contentTypeForLink_registry localTweetArchive_matches_def
      localCodeFile_matches_def localFragment_matches_def localPage_matches_def
      originalURLForLink_def example_site_simps startsWith_def withQueryAndFragment_def
      endsWith_def endsWithExtension_def codeFileExtensions_def toLowerASCII_def)

theorem cache_key_ignores_hash_and_search_witness:
  "contentTypeForLink Content_contentTypes exampleEnv (linkTo ''/essay'' None) \<noteq> None
   \<and> contentTypeForLink Content_contentTypes exampleEnv
        (withQueryAndFragment (linkTo ''/essay'' None) (Some ''v=2'') (Some ''section-3''))
       \<noteq> None
   \<and> Content_contentCacheKeyForLink Content_contentTypes exampleEnv
        (withQueryAndFragment (linkTo ''/essay'' None) (Some ''v=2'') (Some ''section-3''))
       = Inr ''https://gwern.net/essay''
   \<and> Content_contentCacheKeyForLink Content_contentTypes exampleEnv (linkTo ''/essay'' None)
       = Inr ''https://gwern.net/essay''"
proof -
  have k: "Content_contentCacheKeyForLink Content_contentTypes exampleEnv (linkTo ''/essay'' None)
             = Inr ''https://gwern.net/essay''"
    by (simp add: Content_contentCacheKeyForLink_def Content_sourceURLsForLink_def
        essayLink_classified sourceURLs_simps singleSourceURL_def clearHashAndSearch_def
        href_def example_site_simps site_def)
  show ?thesis
    using cache_key_ignores_hash_and_search
            [of exampleEnv "linkTo ''/essay'' None" "Some ''v=2''" "Some ''section-3''"]
          essayLink_classified [of None] essayLink_withQF_classified k
    by simp
qed

section \<open>The loader and the cache\<close>

lemma loadSource_request:
  "Content_sourceURLsForLink types e l = Inr (u # rest) \<Longrightarrow> pathname u \<noteq> pathname (location e) \<Longrightarrow>
   loadSource types e l None s = (Inr (), s\<lparr>requests := requests s @ [ContentRequest l u rest]\<rparr>)"
  by (simp add: loadSource_def)

lemma loadSource_remaining:
  "pathname u \<noteq> pathname (location e) \<Longrightarrow>
   loadSource types e l (Some (u # rest)) s
     = (Inr (), s\<lparr>requests := requests s @ [ContentRequest l u rest]\<rparr>)"
  by (simp add: loadSource_def)

lemma cacheKey_of_sources:
  "Content_sourceURLsForLink types e l = Inr (u # rest) \<Longrightarrow>
   Content_contentCacheKeyForLink types e l = Inr (href u)"
  by (simp add: Content_contentCacheKeyForLink_def)

lemma cachedContentForLink_elsewhere:
  "pathname (url l) \<noteq> pathname (location e) \<Longrightarrow>
   Content_contentCacheKeyForLink types e l = Inr key \<Longrightarrow>
   Content_cachedContentForLink types e l s = (Inr (cachedContent s key), s)"
  by (simp add: Content_cachedContentForLink_def)

lemma waitForDataLoad_cached:
  assumes "pathname (url l) \<noteq> pathname (location e)"
    and "Content_contentCacheKeyForLink types e l = Inr key"
    and "cachedContent s key = Some v"
  shows "Content_waitForDataLoad types e l loadHandler loadFailHandler s
           = (Inr (), callHandler (if v = LOADING_FAILED then loadFailHandler else loadHandler) l s)"
  using assms by (simp add: Content_waitForDataLoad_def cachedContentForLink_elsewhere)

text \<open>
  Claim C1, as the code has it. \<^verbatim>\<open>Content.load\<close> does not look into the cache. For
  a link whose key has a cached result (the link and its first source URL being off the
  current page) it makes the request for the first source URL again. The call itself
  leaves the cache as it is and fires no event; a handler given to it is called at
  once, the load handler for a cached content and the failure handler for the failure
  marker, and none is registered.
\<close>

theorem load_does_not_consult_cache:
  assumes "Content_sourceURLsForLink types e l = Inr (u # rest)"
    and "pathname u \<noteq> pathname (location e)"
    and "pathname (url l) \<noteq> pathname (location e)"
    and "cachedContent s (href u) = Some v"
  shows "Content_load types e l loadHandler loadFailHandler None s
           = (Inr (), callHandler (if v = LOADING_FAILED then loadFailHandler else loadHandler) l
                        (s\<lparr>requests := requests s @ [ContentRequest l u rest]\<rparr>))
         \<and> cachedContent (snd (Content_load types e l loadHandler loadFailHandler None s))
             = cachedContent s
         \<and> fired (snd (Content_load types e l loadHandler loadFailHandler None s)) = fired s
         \<and> waiting (snd (Content_load types e l loadHandler loadFailHandler None s)) = waiting s
         \<and> requests (snd (Content_load types e l loadHandler loadFailHandler None s))
             = requests s @ [ContentRequest l u rest]"
proof -
  let ?s1 = "s\<lparr>requests := requests s @ [ContentRequest l u rest]\<rparr>"
  have c: "cachedContent ?s1 (href u) = Some v" using assms(4) by simp
  have w: "Content_waitForDataLoad types e l loadHandler loadFailHandler ?s1
             = (Inr (), callHandler (if v = LOADING_FAILED then loadFailHandler else loadHandler) l ?s1)"
    by (rule waitForDataLoad_cached [OF assms(3) cacheKey_of_sources [OF assms(1)] c])
  have eq: "Content_load types e l loadHandler loadFailHandler None s
           = (Inr (), callHandler (if v = LOADING_FAILED then loadFailHandler else loadHandler) l ?s1)"
  proof (cases "loadHandler \<noteq> None \<or> loadFailHandler \<noteq> None")
    case True
    then show ?thesis
      using w by (simp add: Content_load_def loadSource_request [OF assms(1,2)])
  next
    case False
    then show ?thesis
      by (simp add: Content_load_def loadSource_request [OF assms(1,2)] callHandler_def)
  qed
  show ?thesis
    unfolding eq by (simp add: callHandler_def split: option.splits)
qed


lemma essay_sources:
  "Content_sourceURLsForLink Content_contentTypes exampleEnv (linkTo ''/essay'' frag)
     = Inr [site\<lparr>pathname := ''/essay''\<rparr>]"
  by (simp add: Content_sourceURLsForLink_def essayLink_classified sourceURLs_simps
      singleSourceURL_def clearHashAndSearch_def example_site_simps site_def)

lemma essay_href: "href (site\<lparr>pathname := ''/essay''\<rparr>) = ''https://gwern.net/essay''"
  by (simp add: href_def site_def)

theorem load_does_not_consult_cache_witness:
  "Content_sourceURLsForLink Content_contentTypes exampleEnv (linkTo ''/essay'' None)
     = Inr [site\<lparr>pathname := ''/essay''\<rparr>]
   \<and> pathname (site\<lparr>pathname := ''/essay''\<rparr>) \<noteq> pathname (location exampleEnv)
   \<and> pathname (url (linkTo ''/essay'' None)) \<noteq> pathname (location exampleEnv)
   \<and> cachedContent essayFailed (href (site\<lparr>pathname := ''/essay''\<rparr>)) = Some LOADING_FAILED
   \<and> Content_load Content_contentTypes exampleEnv (linkTo ''/essay'' None) (Some 1) (Some 2) None
        essayFailed
       = (Inr (), essayFailed\<lparr>requests := [ContentRequest (linkTo ''/essay'' None)
                                               (site\<lparr>pathname := ''/essay''\<rparr>) []],
                               handlerCalls := [(2, linkTo ''/essay'' None)]\<rparr>)"
proof -
  have a: "pathname (site\<lparr>pathname := ''/essay''\<rparr>) \<noteq> pathname (location exampleEnv)"
    by (simp add: example_site_simps)
  have b: "pathname (url (linkTo ''/essay'' None)) \<noteq> pathname (location exampleEnv)"
    by (simp add: example_site_simps)
  have c: "cachedContent essayFailed (href (site\<lparr>pathname := ''/essay''\<rparr>)) = Some LOADING_FAILED"
    by (simp add: essayFailed_def essay_href)
  show ?thesis
    using load_does_not_consult_cache [OF essay_sources [of None] a b c, of "Some 1" "Some 2"] a b c
      essay_sources [of None]
    by (simp add: callHandler_def essayFailed_def emptyState_def)
qed

text \<open>
  Claim C1 as stated fails: \<^verbatim>\<open>/essay\<close> has a cached content and no request is
  pending; after \<^verbatim>\<open>Content.load\<close> of a link to it there is a request for the page.
\<close>

theorem load_of_cached_link_requests_again:
  "cachedContent essayLoaded ''https://gwern.net/essay'' = Some (Loaded essayContent)
   \<and> Content_contentCacheKeyForLink Content_contentTypes exampleEnv (linkTo ''/essay'' None)
       = Inr ''https://gwern.net/essay''
   \<and> requests essayLoaded = []
   \<and> requests (snd (Content_load Content_contentTypes exampleEnv (linkTo ''/essay'' None)
                      None None None essayLoaded))
       = [ContentRequest (linkTo ''/essay'' None) (site\<lparr>pathname := ''/essay''\<rparr>) []]"
  by (simp add: essayLoaded_def emptyState_def Content_load_def loadSource_def essay_sources
      Content_contentCacheKeyForLink_def essay_href example_site_simps)

text \<open>
  Claim C5, as the code has it. \<^verbatim>\<open>Content.cachedDataExists\<close> is true exactly for a
  cached content: it is false for the failure marker as it is for an absent entry. For
  a link off the current page the cache is read as it is; in general (a link to the
  current page is loaded first) the answer describes the cache that the call leaves.
\<close>

theorem cachedDataExists_only_for_loaded:
  assumes "Content_contentCacheKeyForLink types e l = Inr key"
  shows "(pathname (url l) \<noteq> pathname (location e) \<longrightarrow>
            Content_cachedDataExists types e l s
              = (Inr (case cachedContent s key of
                        Some (Loaded c) \<Rightarrow> True
                      | Some LOADING_FAILED \<Rightarrow> False
                      | None \<Rightarrow> False), s))
         \<and> (\<forall>b s'. Content_cachedDataExists types e l s = (Inr b, s') \<longrightarrow>
                b = (case cachedContent s' key of
                       Some (Loaded c) \<Rightarrow> True
                     | Some LOADING_FAILED \<Rightarrow> False
                     | None \<Rightarrow> False))"
proof -
  have 1: "pathname (url l) \<noteq> pathname (location e) \<longrightarrow>
            Content_cachedDataExists types e l s
              = (Inr (case cachedContent s key of
                        Some (Loaded c) \<Rightarrow> True
                      | Some LOADING_FAILED \<Rightarrow> False
                      | None \<Rightarrow> False), s)"
    using assms
    by (auto simp: Content_cachedDataExists_def cachedContentForLink_elsewhere
        split: option.splits cached.splits)
  have 2: "\<forall>b s'. Content_cachedDataExists types e l s = (Inr b, s') \<longrightarrow>
                b = (case cachedContent s' key of
                       Some (Loaded c) \<Rightarrow> True
                     | Some LOADING_FAILED \<Rightarrow> False
                     | None \<Rightarrow> False)"
    using assms
    by (auto simp: Content_cachedDataExists_def Content_cachedContentForLink_def
        split: option.splits cached.splits prod.splits sum.splits if_splits)
  show ?thesis using 1 2 by blast
qed

lemma essay_key:
  "Content_contentCacheKeyForLink Content_contentTypes exampleEnv (linkTo ''/essay'' frag)
     = Inr ''https://gwern.net/essay''"
  by (simp add: Content_contentCacheKeyForLink_def essay_sources essay_href)

theorem cachedDataExists_only_for_loaded_witness:
  "Content_contentCacheKeyForLink Content_contentTypes exampleEnv (linkTo ''/essay'' None)
     = Inr ''https://gwern.net/essay''
   \<and> pathname (url (linkTo ''/essay'' None)) \<noteq> pathname (location exampleEnv)
   \<and> Content_cachedDataExists Content_contentTypes exampleEnv (linkTo ''/essay'' None) essayLoaded
       = (Inr True, essayLoaded)
   \<and> Content_cachedDataExists Content_contentTypes exampleEnv (linkTo ''/essay'' None) emptyState
       = (Inr False, emptyState)"
proof -
  have b: "pathname (url (linkTo ''/essay'' None)) \<noteq> pathname (location exampleEnv)"
    by (simp add: example_site_simps)
  show ?thesis
    using cachedDataExists_only_for_loaded [OF essay_key [of None], of essayLoaded]
      cachedDataExists_only_for_loaded [OF essay_key [of None], of emptyState] b essay_key [of None]
    by (simp add: essayLoaded_def emptyState_def)
qed

text \<open>
  Claim C5 as stated fails: for a link whose cache entry is the failure marker,
  \<^verbatim>\<open>Content.cachedDataExists\<close> is false.
\<close>

theorem cachedDataExists_false_for_failed:
  "cachedContent essayFailed ''https://gwern.net/essay'' = Some LOADING_FAILED
   \<and> Content_contentCacheKeyForLink Content_contentTypes exampleEnv (linkTo ''/essay'' None)
       = Inr ''https://gwern.net/essay''
   \<and> Content_cachedDataExists Content_contentTypes exampleEnv (linkTo ''/essay'' None) essayFailed
       = (Inr False, essayFailed)"
  by (simp add: essay_key Content_cachedDataExists_def Content_cachedContentForLink_def
      example_site_simps essayFailed_def emptyState_def)


lemma respond_newest:
  "respond types e (length (requests s)) r (s\<lparr>requests := requests s @ [ContentRequest l u remaining]\<rparr>)
     = (case r of
          Succeeded header responseText \<Rightarrow> onSuccess types e l u header responseText s
        | Failed \<Rightarrow> onFailure types e l u remaining s)"
  by (simp add: respond_def split: response.splits)

lemma onFailure_next:
  "pathname B \<noteq> pathname (location e) \<Longrightarrow>
   onFailure types e l A (B # rest) s
     = (Inr (), s\<lparr>requests := requests s @ [ContentRequest l B rest]\<rparr>)"
  by (simp add: onFailure_def Content_load_def loadSource_remaining)

lemma onFailure_last:
  "Content_contentCacheKeyForLink types e l = Inr key \<Longrightarrow>
   onFailure types e l B [] s
     = (Inr (), s\<lparr>cachedContent := (cachedContent s)(key \<mapsto> LOADING_FAILED),
                  fired := fired s @ [Content_contentLoadDidFail l],
                  serverLog := serverLog s @ [(href B, ''missing content'')]\<rparr>)"
  by (simp add: onFailure_def Content_cacheContentForLink_def)

lemma processResponse_content:
  "contentTypeForLink types e l = Some ct \<Longrightarrow>
   contentFromResponse ct e response l u = Inr p \<Longrightarrow> parsedValue p = Some c \<Longrightarrow>
   Content_contentCacheKeyForLink types e l = Inr key \<Longrightarrow>
   processResponse types e l u response s
     = (Inr (), s\<lparr>fired := fired s @ injected p @ [Content_contentDidLoad l],
                  requests := requests s @ map Prefetch (parsedRequests p),
                  cachedContent := (cachedContent s)(key \<mapsto> Loaded c)\<rparr>)"
  by (simp add: processResponse_def Content_contentFromResponse_def
      Content_cacheContentForLink_def injected_def)

lemma processResponse_falsy:
  "contentTypeForLink types e l = Some ct \<Longrightarrow>
   contentFromResponse ct e response l u = Inr p \<Longrightarrow> parsedValue p = None \<Longrightarrow>
   Content_contentCacheKeyForLink types e l = Inr key \<Longrightarrow>
   processResponse types e l u response s
     = (Inr (), s\<lparr>fired := fired s @ injected p @ [Content_contentLoadDidFail l],
                  requests := requests s @ map Prefetch (parsedRequests p),
                  cachedContent := (cachedContent s)(key \<mapsto> LOADING_FAILED),
                  serverLog := serverLog s
                    @ [(href u @ ''--could-not-process'', ''problematic content'')]\<rparr>)"
  by (simp add: processResponse_def Content_contentFromResponse_def
      Content_cacheContentForLink_def injected_def)

lemma onSuccess_accepted:
  "contentTypeForLink types e l = Some ct \<Longrightarrow> contentTypeRejected ct header = Inr False \<Longrightarrow>
   onSuccess types e l u header responseText s = processResponse types e l u (Some responseText) s"
  by (simp add: onSuccess_def)

lemma onSuccess_rejected:
  "contentTypeForLink types e l = Some ct \<Longrightarrow> contentTypeRejected ct header = Inr True \<Longrightarrow>
   onSuccess types e l u header responseText s
     = (case includeLink e of
          None \<Rightarrow> (Inl ReferenceError, s)
        | Some other \<Rightarrow>
            (Inr (), s\<lparr>serverLog := serverLog s
                         @ [(href (url other) @ ''--bad-content-type'', ''bad content type'')]\<rparr>))"
  by (simp add: onSuccess_def)

lemma no_failure_injected: "filter isLoadFailure (injected p) = []"
  by (simp add: injected_def filter_empty_conv split_beta)

text \<open>
  Claim C2 against the code. When the transport succeeds and the content type of the
  link does not permit the \<^verbatim>\<open>Content-Type\<close> header of the response, \<^verbatim>\<open>onSuccess\<close>
  changes neither the cache nor the events fired nor the pending requests: no failure
  marker is cached, no \<^verbatim>\<open>Content.contentLoadDidFail\<close> is fired, and no other source
  URL is requested. Where no script defines a global \<^verbatim>\<open>includeLink\<close>, the error
  report throws a reference error before anything is reported.
\<close>

theorem content_type_mismatch_caches_nothing:
  assumes "contentTypeForLink types e l = Some ct"
    and "contentTypeRejected ct header = Inr True"
  shows "cachedContent (snd (onSuccess types e l u header responseText s)) = cachedContent s
         \<and> fired (snd (onSuccess types e l u header responseText s)) = fired s
         \<and> requests (snd (onSuccess types e l u header responseText s)) = requests s
         \<and> (includeLink e = None \<longrightarrow>
               onSuccess types e l u header responseText s = (Inl ReferenceError, s))"
  by (simp add: onSuccess_rejected [OF assms] split: option.splits)

lemma updateFirst_without_match:
  "pathTo P n = None \<Longrightarrow> updateFirst P f n = None"
  "querySelector P ns = None \<Longrightarrow> updateFirstIn P f ns = None"
  by (induction P n and P ns rule: pathTo_querySelector.induct)
     (auto split: if_splits option.splits)

lemma localCodeFile_markup_without_code:
  assumes "take 1 responseText = ''<''"
    and "querySelector (hasTag ''code'') (parseHTML e responseText) = None"
  shows "localCodeFile_contentFromResponse e (Some responseText) l u = Inl TypeError"
  using assms updateFirst_without_match(2) [OF assms(2)]
  by (simp add: localCodeFile_contentFromResponse_def newDocument_def)

lemma respond_last:
  "requests t = rs @ [ContentRequest l u remaining] \<Longrightarrow>
   respond types e (length rs) r t
     = (case r of
          Succeeded header responseText \<Rightarrow>
            onSuccess types e l u header responseText (t\<lparr>requests := rs\<rparr>)
        | Failed \<Rightarrow> onFailure types e l u remaining (t\<lparr>requests := rs\<rparr>))"
  by (simp add: respond_def split: response.splits)

lemma waitForDataLoad_elsewhere:
  assumes "pathname (url l) \<noteq> pathname (location e)"
    and "Content_contentCacheKeyForLink types e l = Inr key"
  shows "fst (Content_waitForDataLoad types e l loadHandler loadFailHandler s) = Inr ()
         \<and> requests (snd (Content_waitForDataLoad types e l loadHandler loadFailHandler s)) = requests s
         \<and> cachedContent (snd (Content_waitForDataLoad types e l loadHandler loadFailHandler s))
             = cachedContent s
         \<and> fired (snd (Content_waitForDataLoad types e l loadHandler loadFailHandler s)) = fired s
         \<and> serverLog (snd (Content_waitForDataLoad types e l loadHandler loadFailHandler s))
             = serverLog s"
  by (simp add: Content_waitForDataLoad_def cachedContentForLink_elsewhere [OF assms]
      callHandler_def split: option.splits)

lemma load_elsewhere:
  assumes "Content_sourceURLsForLink types e l = Inr (u # rest)"
    and "pathname u \<noteq> pathname (location e)"
    and "pathname (url l) \<noteq> pathname (location e)"
  shows "fst (Content_load types e l loadHandler loadFailHandler None s) = Inr ()
         \<and> requests (snd (Content_load types e l loadHandler loadFailHandler None s))
             = requests s @ [ContentRequest l u rest]
         \<and> cachedContent (snd (Content_load types e l loadHandler loadFailHandler None s))
             = cachedContent s
         \<and> fired (snd (Content_load types e l loadHandler loadFailHandler None s)) = fired s
         \<and> serverLog (snd (Content_load types e l loadHandler loadFailHandler None s))
             = serverLog s"
  using waitForDataLoad_elsewhere [OF assms(3) cacheKey_of_sources [OF assms(1)],
          of loadHandler loadFailHandler "s\<lparr>requests := requests s @ [ContentRequest l u rest]\<rparr>"]
  by (simp add: Content_load_def loadSource_request [OF assms(1,2)])


text \<open>
  Claim C3 against the code. The one content type of the registry with two source URLs
  is that of code files: the highlighted version of the file first, then the file
  itself. For a link to a code file, both source URLs being off the current page,
  \<^verbatim>\<open>Content.load\<close> (with or without handlers) requests the highlighted version and
  changes neither the cache nor the events; when that request fails, the file itself
  is requested and nothing else changes. When this second request succeeds with a text
  that begins with \<^verbatim>\<open><\<close> (the file is markup) and whose parse holds no
  \<^verbatim>\<open>code\<close> element, \<^verbatim>\<open>contentFromResponse\<close> takes the text for a highlighted
  version and reads a property of \<^verbatim>\<open>null\<close>: the callback throws a type error,
  nothing is cached and no event is fired, so the link is left without a result.
  When the second request fails too, the failure marker is cached under the key of the
  link and \<^verbatim>\<open>Content.contentLoadDidFail\<close> is fired once.
\<close>

theorem fallback_to_raw_markup_throws:
  assumes "contentTypeForLink Content_contentTypes e l = Some localCodeFile"
    and "localCodeFile_sourceURLsForLink l = [A, B]"
    and "pathname A \<noteq> pathname (location e)"
    and "pathname B \<noteq> pathname (location e)"
    and "take 1 responseText = ''<''"
    and "querySelector (hasTag ''code'') (parseHTML e responseText) = None"
  shows "Content_sourceURLsForLink Content_contentTypes e l = Inr [A, B]
         \<and> (let s1 = snd (Content_load Content_contentTypes e l loadHandler loadFailHandler None s);
                 s2 = snd (respond Content_contentTypes e (length (requests s)) Failed s1)
             in fst (Content_load Content_contentTypes e l loadHandler loadFailHandler None s) = Inr ()
                \<and> requests s1 = requests s @ [ContentRequest l A [B]]
                \<and> cachedContent s1 = cachedContent s
                \<and> fired s1 = fired s
                \<and> fst (respond Content_contentTypes e (length (requests s)) Failed s1) = Inr ()
                \<and> requests s2 = requests s @ [ContentRequest l B []]
                \<and> cachedContent s2 = cachedContent s
                \<and> fired s2 = fired s
                \<and> respond Content_contentTypes e (length (requests s))
                     (Succeeded header responseText) s2
                    = (Inl TypeError, s2\<lparr>requests := requests s\<rparr>)
                \<and> respond Content_contentTypes e (length (requests s)) Failed s2
                    = (Inr (), s2\<lparr>requests := requests s,
                                  cachedContent := (cachedContent s)(href A \<mapsto> LOADING_FAILED),
                                  fired := fired s @ [Content_contentLoadDidFail l],
                                  serverLog := serverLog s2 @ [(href B, ''missing content'')]\<rparr>))"
proof -
  define s1 where "s1 = snd (Content_load Content_contentTypes e l loadHandler loadFailHandler None s)"
  define s2 where "s2 = snd (respond Content_contentTypes e (length (requests s)) Failed s1)"
  have src: "Content_sourceURLsForLink Content_contentTypes e l = Inr [A, B]"
    using assms(1,2) by (simp add: Content_sourceURLsForLink_def sourceURLs_simps)
  have key: "Content_contentCacheKeyForLink Content_contentTypes e l = Inr (href A)"
    using src by (rule cacheKey_of_sources)
  have "pathname B = pathname (url l)"
    using assms(2) by (auto simp: localCodeFile_sourceURLsForLink_def clearHashAndSearch_def Let_def)
  then have off: "pathname (url l) \<noteq> pathname (location e)"
    using assms(4) by simp
  note 1 = load_elsewhere [OF src assms(3) off, of loadHandler loadFailHandler s, folded s1_def]
  have r1: "respond Content_contentTypes e (length (requests s)) Failed s1
              = (Inr (), s1\<lparr>requests := requests s @ [ContentRequest l B []]\<rparr>)"
    using 1 by (simp add: respond_last [of s1 "requests s" l A "[B]"] onFailure_next [OF assms(4)])
  have s2: "s2 = s1\<lparr>requests := requests s @ [ContentRequest l B []]\<rparr>"
    by (simp add: s2_def r1)
  have cfr: "contentFromResponse localCodeFile e (Some responseText) l B = Inl TypeError"
    using localCodeFile_markup_without_code [OF assms(5,6)] by (simp add: localCodeFile_def)
  have acc: "contentTypeRejected localCodeFile header = Inr False"
    by (simp add: contentTypeRejected_def localCodeFile_def)
  have r2: "respond Content_contentTypes e (length (requests s)) (Succeeded header responseText) s2
              = (Inl TypeError, s2\<lparr>requests := requests s\<rparr>)"
    using respond_last [of s2 "requests s" l B "[]" Content_contentTypes e
                          "Succeeded header responseText"]
    by (simp add: s2 onSuccess_accepted [OF assms(1) acc] processResponse_def
        Content_contentFromResponse_def assms(1) cfr)
  have r3: "respond Content_contentTypes e (length (requests s)) Failed s2
              = (Inr (), s2\<lparr>requests := requests s,
                            cachedContent := (cachedContent s)(href A \<mapsto> LOADING_FAILED),
                            fired := fired s @ [Content_contentLoadDidFail l],
                            serverLog := serverLog s2 @ [(href B, ''missing content'')]\<rparr>)"
    using respond_last [of s2 "requests s" l B "[]" Content_contentTypes e Failed] 1
    by (simp add: s2 onFailure_last [OF key])
  have "fst (Content_load Content_contentTypes e l loadHandler loadFailHandler None s) = Inr ()
        \<and> requests s1 = requests s @ [ContentRequest l A [B]]
        \<and> cachedContent s1 = cachedContent s
        \<and> fired s1 = fired s
        \<and> fst (respond Content_contentTypes e (length (requests s)) Failed s1) = Inr ()
        \<and> requests s2 = requests s @ [ContentRequest l B []]
        \<and> cachedContent s2 = cachedContent s
        \<and> fired s2 = fired s"
    using 1 r1 by (simp add: s2)
  then show ?thesis
    using src r2 r3 unfolding Let_def s1_def [symmetric] s2_def [symmetric] by simp
qed

text \<open>
  Claim C4. When the transport succeeds, the content type is permitted and
  \<^verbatim>\<open>contentFromResponse\<close> returns a falsy value, the failure marker is cached under
  the key of the link, \<^verbatim>\<open>Content.contentLoadDidFail\<close> is fired exactly once and the
  failure is reported with the suffix \<^verbatim>\<open>--could-not-process\<close>.
\<close>

theorem unprocessable_response_is_failure:
  assumes "contentTypeForLink types e l = Some ct"
    and "contentTypeRejected ct header = Inr False"
    and "contentFromResponse ct e (Some responseText) l u = Inr p"
    and "parsedValue p = None"
    and "Content_contentCacheKeyForLink types e l = Inr key"
  shows "onSuccess types e l u header responseText s
           = (Inr (), s\<lparr>fired := fired s @ injected p @ [Content_contentLoadDidFail l],
                        requests := requests s @ map Prefetch (parsedRequests p),
                        cachedContent := (cachedContent s)(key \<mapsto> LOADING_FAILED),
                        serverLog := serverLog s
                          @ [(href u @ ''--could-not-process'', ''problematic content'')]\<rparr>)
         \<and> filter isLoadFailure (fired (snd (onSuccess types e l u header responseText s)))
             = filter isLoadFailure (fired s) @ [Content_contentLoadDidFail l]
         \<and> cachedContent (snd (onSuccess types e l u header responseText s)) key
             = Some LOADING_FAILED"
  by (simp add: onSuccess_accepted [OF assms(1,2)] processResponse_falsy [OF assms(1,3,4,5)]
      no_failure_injected)


lemma feed_classified:
  "contentTypeForLink Content_contentTypes exampleEnv feedLink = Some localCodeFile"
  by (simp add: contentTypeForLink_registry localTweetArchive_matches_def
      localCodeFile_matches_def originalURLForLink_def feedLink_def example_site_simps
      startsWith_def endsWith_def endsWithExtension_def codeFileExtensions_def toLowerASCII_def)

lemma feed_sources:
  "localCodeFile_sourceURLsForLink feedLink = [feedHighlightedURL, feedURL]"
  by (simp add: localCodeFile_sourceURLsForLink_def clearHashAndSearch_def feedLink_def
      example_site_simps feedHighlightedURL_def feedURL_def site_def Let_def)

lemma feed_markup:
  "take 1 feedText = ''<''"
  "parseHTML exampleEnv feedText = [Element ''rss'' [] [Element ''channel'' [] []]]"
  "querySelector (hasTag ''code'') (parseHTML exampleEnv feedText) = None"
  by (simp_all add: feedText_def exampleEnv_def)

theorem fallback_to_raw_markup_throws_witness:
  "contentTypeForLink Content_contentTypes exampleEnv feedLink = Some localCodeFile
   \<and> localCodeFile_sourceURLsForLink feedLink = [feedHighlightedURL, feedURL]
   \<and> pathname feedHighlightedURL \<noteq> pathname (location exampleEnv)
   \<and> pathname feedURL \<noteq> pathname (location exampleEnv)
   \<and> take 1 feedText = ''<''
   \<and> querySelector (hasTag ''code'') (parseHTML exampleEnv feedText) = None
   \<and> Content_load Content_contentTypes exampleEnv feedLink (Some 1) (Some 2) None emptyState
       = (Inr (), emptyState\<lparr>requests := [ContentRequest feedLink feedHighlightedURL [feedURL]],
                             waiting := [(feedLink, Some 1, Some 2)]\<rparr>)
   \<and> respond Content_contentTypes exampleEnv 0 Failed
        (emptyState\<lparr>requests := [ContentRequest feedLink feedHighlightedURL [feedURL]],
                    waiting := [(feedLink, Some 1, Some 2)]\<rparr>)
       = (Inr (), emptyState\<lparr>requests := [ContentRequest feedLink feedURL []],
                             waiting := [(feedLink, Some 1, Some 2)]\<rparr>)
   \<and> respond Content_contentTypes exampleEnv 0 (Succeeded (Some ''application/xml'') feedText)
        (emptyState\<lparr>requests := [ContentRequest feedLink feedURL []],
                    waiting := [(feedLink, Some 1, Some 2)]\<rparr>)
       = (Inl TypeError, emptyState\<lparr>waiting := [(feedLink, Some 1, Some 2)]\<rparr>)
   \<and> respond Content_contentTypes exampleEnv 0 Failed
        (emptyState\<lparr>requests := [ContentRequest feedLink feedURL []],
                    waiting := [(feedLink, Some 1, Some 2)]\<rparr>)
       = (Inr (), emptyState\<lparr>waiting := [(feedLink, Some 1, Some 2)],
                             cachedContent := [href feedHighlightedURL \<mapsto> LOADING_FAILED],
                             fired := [Content_contentLoadDidFail feedLink],
                             serverLog := [(href feedURL, ''missing content'')]\<rparr>)"
proof -
  have a: "pathname feedHighlightedURL \<noteq> pathname (location exampleEnv)"
    by (simp add: feedHighlightedURL_def example_site_simps)
  have b: "pathname feedURL \<noteq> pathname (location exampleEnv)"
    by (simp add: feedURL_def example_site_simps)
  have off: "pathname (url feedLink) \<noteq> pathname (location exampleEnv)"
    by (simp add: feedLink_def example_site_simps)
  have src: "Content_sourceURLsForLink Content_contentTypes exampleEnv feedLink
               = Inr [feedHighlightedURL, feedURL]"
    by (simp add: Content_sourceURLsForLink_def feed_classified sourceURLs_simps feed_sources)
  have key: "Content_contentCacheKeyForLink Content_contentTypes exampleEnv feedLink
               = Inr (href feedHighlightedURL)"
    using src by (rule cacheKey_of_sources)
  have e: "requests emptyState = []" "fired emptyState = []" "serverLog emptyState = []"
    "cachedContent emptyState = (\<lambda>key. None)" "waiting emptyState = []"
    by (simp_all add: emptyState_def)
  have load: "Content_load Content_contentTypes exampleEnv feedLink (Some 1) (Some 2) None emptyState
       = (Inr (), emptyState\<lparr>requests := [ContentRequest feedLink feedHighlightedURL [feedURL]],
                             waiting := [(feedLink, Some 1, Some 2)]\<rparr>)"
    by (simp add: Content_load_def loadSource_request [OF src a] Content_waitForDataLoad_def
        cachedContentForLink_elsewhere [OF off key] e)
  have first: "respond Content_contentTypes exampleEnv 0 Failed
        (emptyState\<lparr>requests := [ContentRequest feedLink feedHighlightedURL [feedURL]],
                    waiting := [(feedLink, Some 1, Some 2)]\<rparr>)
       = (Inr (), emptyState\<lparr>requests := [ContentRequest feedLink feedURL []],
                             waiting := [(feedLink, Some 1, Some 2)]\<rparr>)"
    by (simp add: respond_def onFailure_next [OF b] e)
  note th = fallback_to_raw_markup_throws [OF feed_classified feed_sources a b feed_markup(1,3),
              of "Some 1" "Some 2" emptyState "Some ''application/xml''",
              unfolded Let_def load first snd_conv e list.size append_Nil]
  show ?thesis
    using th feed_classified feed_sources a b feed_markup(1,3) load first
    by (simp add: e)
qed

theorem unprocessable_response_is_failure_witness:
  "contentTypeForLink [unprocessable] exampleEnv (linkTo ''/essay'' None) = Some unprocessable
   \<and> contentTypeRejected unprocessable (Some ''text/html; charset=utf-8'') = Inr False
   \<and> Content_contentCacheKeyForLink [unprocessable] exampleEnv (linkTo ''/essay'' None)
       = Inr ''https://gwern.net/essay''
   \<and> onSuccess [unprocessable] exampleEnv (linkTo ''/essay'' None) (site\<lparr>pathname := ''/essay''\<rparr>)
        (Some ''text/html; charset=utf-8'') ''<p>?</p>'' emptyState
       = (Inr (), emptyState\<lparr>fired := [Content_contentLoadDidFail (linkTo ''/essay'' None)],
                             cachedContent := [''https://gwern.net/essay'' \<mapsto> LOADING_FAILED],
                             serverLog := [(''https://gwern.net/essay--could-not-process'',
                                            ''problematic content'')]\<rparr>)"
proof -
  have ct: "contentTypeForLink [unprocessable] exampleEnv (linkTo ''/essay'' None) = Some unprocessable"
    by (simp add: unprocessable_def)
  have acc: "contentTypeRejected unprocessable (Some ''text/html; charset=utf-8'') = Inr False"
    by (simp add: contentTypeRejected_def unprocessable_def lineTerminator_def)
  have p: "contentFromResponse unprocessable exampleEnv (Some ''<p>?</p>'') (linkTo ''/essay'' None)
             (site\<lparr>pathname := ''/essay''\<rparr>)
           = Inr \<lparr>parsedValue = None, parsedEvents = [], parsedRequests = []\<rparr>"
    by (simp add: unprocessable_def)
  have key: "Content_contentCacheKeyForLink [unprocessable] exampleEnv (linkTo ''/essay'' None)
       = Inr ''https://gwern.net/essay''"
    by (simp add: Content_contentCacheKeyForLink_def Content_sourceURLsForLink_def unprocessable_def
        singleSourceURL_def clearHashAndSearch_def href_def example_site_simps site_def)
  show ?thesis
    using unprocessable_response_is_failure [OF ct acc p _ key, of emptyState] ct acc key
    by (simp add: emptyState_def injected_def essay_href)
qed

lemma backlinks_classified:
  "contentTypeForLink Content_contentTypes exampleEnv backlinksLink = Some localFragment"
  by (simp add: contentTypeForLink_registry localTweetArchive_matches_def
      localCodeFile_matches_def localFragment_matches_def backlinksLink_def
      originalURLForLink_def example_site_simps startsWith_def endsWith_def)

theorem content_type_mismatch_caches_nothing_witness:
  "contentTypeForLink Content_contentTypes exampleEnv backlinksLink = Some localFragment
   \<and> contentTypeRejected localFragment (Some ''application/octet-stream'') = Inr True
   \<and> includeLink exampleEnv = None
   \<and> onSuccess Content_contentTypes exampleEnv backlinksLink (url backlinksLink)
        (Some ''application/octet-stream'') ''<p>Backlinks</p>'' emptyState
       = (Inl ReferenceError, emptyState)
   \<and> respond Content_contentTypes exampleEnv 0
        (Succeeded (Some ''application/octet-stream'') ''<p>Backlinks</p>'')
        (emptyState\<lparr>requests := [ContentRequest backlinksLink (url backlinksLink) []]\<rparr>)
       = (Inl ReferenceError, emptyState)"
proof -
  have rej: "contentTypeRejected localFragment (Some ''application/octet-stream'') = Inr True"
    by (simp add: contentTypeRejected_def localFragment_def lineTerminator_def)
  have inc: "includeLink exampleEnv = None"
    by (simp add: exampleEnv_def)
  have on: "onSuccess Content_contentTypes exampleEnv backlinksLink (url backlinksLink)
        (Some ''application/octet-stream'') ''<p>Backlinks</p>'' emptyState
       = (Inl ReferenceError, emptyState)"
    using content_type_mismatch_caches_nothing [OF backlinks_classified rej] inc by simp
  have "respond Content_contentTypes exampleEnv 0
        (Succeeded (Some ''application/octet-stream'') ''<p>Backlinks</p>'')
        (emptyState\<lparr>requests := [ContentRequest backlinksLink (url backlinksLink) []]\<rparr>)
       = (Inl ReferenceError, emptyState)"
    using respond_newest [of Content_contentTypes exampleEnv emptyState
            "Succeeded (Some ''application/octet-stream'') ''<p>Backlinks</p>''"
            backlinksLink "url backlinksLink" "[]"] on
    by (simp add: emptyState_def)
  then show ?thesis
    using backlinks_classified rej inc on by simp
qed

lemma index_classified:
  "contentTypeForLink Content_contentTypes exampleEnv (linkTo ''/index'' frag) = Some localPage"
  by (simp add: contentTypeForLink_registry localTweetArchive_matches_def
      localCodeFile_matches_def localFragment_matches_def localPage_matches_def
      originalURLForLink_def example_site_simps startsWith_def
      endsWith_def endsWithExtension_def codeFileExtensions_def toLowerASCII_def)

lemma localPage_live_document:
  "localPage_contentFromResponse e None l u = Inr p \<Longrightarrow>
   \<exists>c. parsedValue p = Some c \<and> document c = LiveDocument \<and> parsedEvents p = []"
  by (auto simp: localPage_contentFromResponse_def truthy_def Let_def
      split: option.splits sum.splits prod.splits)

lemma processResponse_throws:
  "contentTypeForLink types e l = Some ct \<Longrightarrow>
   contentFromResponse ct e response l u = Inl err \<Longrightarrow>
   processResponse types e l u response s = (Inl err, s)"
  by (simp add: processResponse_def Content_contentFromResponse_def)

lemma no_content_request_prefetch: "filter isContentRequest (map Prefetch xs) = []"
  by (induction xs) simp_all

lemma no_content_request_prefetches:
  "filter isContentRequest (concat (replicate n (map Prefetch xs))) = []"
  by (induction n) (simp_all add: no_content_request_prefetch)


text \<open>
  Claim C6, as the code has it. For a link classified as a local page whose path is
  that of the current page, \<^verbatim>\<open>Content.load\<close>, with or without handlers, reads the
  metadata of the page from the live document. When that throws (the document lacks
  the tag of the body classes, say, or its title lacks the site suffix), the call
  throws and leaves the state as it was. Otherwise it caches at once a content whose
  document is the live document, fires \<^verbatim>\<open>Content.contentDidLoad\<close> and calls the load
  handler, if there is one; no request for the page is made (the only requests are
  those that load the thumbnail of the page, if it has one, into the browser cache).
  A call with a handler looks the cached content up twice, and each lookup of a link
  to the current page loads again: then the event is fired three times and the
  thumbnail is requested three times. \<^verbatim>\<open>Content.cachedDocumentForLink\<close> returns the
  live document.
\<close>

theorem self_page_uses_live_document:
  assumes "contentTypeForLink Content_contentTypes e l = Some localPage"
    and "pathname (url l) = pathname (location e)"
  shows "case localPage_contentFromResponse e None l (clearHashAndSearch (url l)) of
           Inl err \<Rightarrow>
             Content_load Content_contentTypes e l loadHandler loadFailHandler None s = (Inl err, s)
         | Inr p \<Rightarrow>
             (\<exists>c. parsedValue p = Some c \<and> document c = LiveDocument
                \<and> Content_load Content_contentTypes e l loadHandler loadFailHandler None s
                    = (Inr (),
                       callHandler loadHandler l
                         (s\<lparr>fired := fired s
                               @ replicate (if loadHandler = None \<and> loadFailHandler = None then 1 else 3)
                                   (Content_contentDidLoad l),
                             requests := requests s
                               @ concat (replicate
                                   (if loadHandler = None \<and> loadFailHandler = None then 1 else 3)
                                   (map Prefetch (parsedRequests p))),
                             cachedContent := (cachedContent s)
                               (href (clearHashAndSearch (url l)) \<mapsto> Loaded c)\<rparr>))
                \<and> filter isContentRequest
                     (requests (snd (Content_load Content_contentTypes e l loadHandler
                                       loadFailHandler None s)))
                    = filter isContentRequest (requests s)
                \<and> fst (Content_cachedDocumentForLink Content_contentTypes e l s)
                    = Inr (Some LiveDocument))"
proof (cases "localPage_contentFromResponse e None l (clearHashAndSearch (url l))")
  case (Inl err)
  have src: "Content_sourceURLsForLink Content_contentTypes e l = Inr [clearHashAndSearch (url l)]"
    using assms(1) by (simp add: Content_sourceURLsForLink_def sourceURLs_simps singleSourceURL_def)
  have path: "pathname (clearHashAndSearch (url l)) = pathname (location e)"
    using assms(2) by (simp add: clearHashAndSearch_def)
  have cfr: "contentFromResponse localPage e None l (clearHashAndSearch (url l)) = Inl err"
    using Inl by (simp add: localPage_def)
  have "loadSource Content_contentTypes e l None s = (Inl err, s)"
    using processResponse_throws [OF assms(1) cfr, of s] by (simp add: loadSource_def src path)
  then show ?thesis
    using Inl by (simp add: Content_load_def)
next
  case (Inr p)
  let ?key = "href (clearHashAndSearch (url l))"
  obtain c where c: "parsedValue p = Some c" "document c = LiveDocument" "parsedEvents p = []"
    using localPage_live_document [OF Inr] by blast
  define pass where "pass = (\<lambda>s :: state. s\<lparr>fired := fired s @ [Content_contentDidLoad l],
                           requests := requests s @ map Prefetch (parsedRequests p),
                           cachedContent := (cachedContent s)(?key \<mapsto> Loaded c)\<rparr>)"
  have src: "Content_sourceURLsForLink Content_contentTypes e l = Inr [clearHashAndSearch (url l)]"
    using assms(1) by (simp add: Content_sourceURLsForLink_def sourceURLs_simps singleSourceURL_def)
  have key: "Content_contentCacheKeyForLink Content_contentTypes e l = Inr ?key"
    using src by (rule cacheKey_of_sources)
  have path: "pathname (clearHashAndSearch (url l)) = pathname (location e)"
    using assms(2) by (simp add: clearHashAndSearch_def)
  have cfr: "contentFromResponse localPage e None l (clearHashAndSearch (url l)) = Inr p"
    using Inr by (simp add: localPage_def)
  have ls: "loadSource Content_contentTypes e l None t = (Inr (), pass t)" for t
    using processResponse_content [OF assms(1) cfr c(1) key, of t] c(3)
    by (simp add: loadSource_def src path injected_def pass_def)
  have found: "cachedContent (pass t) ?key = Some (Loaded c)" for t
    by (simp add: pass_def)
  have look: "Content_cachedContentForLink Content_contentTypes e l t
                = (Inr (Some (Loaded c)), pass t)" for t
    by (simp add: Content_cachedContentForLink_def assms(2) ls key found)
  have wait: "Content_waitForDataLoad Content_contentTypes e l loadHandler loadFailHandler t
                = (Inr (), callHandler loadHandler l (pass (pass t)))" for t
    by (simp add: Content_waitForDataLoad_def look)
  have once: "pass s = s\<lparr>fired := fired s @ replicate 1 (Content_contentDidLoad l),
                          requests := requests s @ concat (replicate 1 (map Prefetch (parsedRequests p))),
                          cachedContent := (cachedContent s)(?key \<mapsto> Loaded c)\<rparr>"
    by (simp add: pass_def)
  have thrice: "pass (pass (pass s))
                  = s\<lparr>fired := fired s @ replicate 3 (Content_contentDidLoad l),
                      requests := requests s @ concat (replicate 3 (map Prefetch (parsedRequests p))),
                      cachedContent := (cachedContent s)(?key \<mapsto> Loaded c)\<rparr>"
    by (simp add: pass_def numeral_3_eq_3)
  have load: "Content_load Content_contentTypes e l loadHandler loadFailHandler None s
                = (Inr (),
                   callHandler loadHandler l
                     (s\<lparr>fired := fired s
                           @ replicate (if loadHandler = None \<and> loadFailHandler = None then 1 else 3)
                               (Content_contentDidLoad l),
                         requests := requests s
                           @ concat (replicate
                               (if loadHandler = None \<and> loadFailHandler = None then 1 else 3)
                               (map Prefetch (parsedRequests p))),
                         cachedContent := (cachedContent s)(?key \<mapsto> Loaded c)\<rparr>))"
  proof (cases "loadHandler = None \<and> loadFailHandler = None")
    case True
    then show ?thesis
      using once by (simp add: Content_load_def ls callHandler_def)
  next
    case False
    then have n: "(if loadHandler = None \<and> loadFailHandler = None then 1 else 3) = (3::nat)"
      by simp
    from False have "Content_load Content_contentTypes e l loadHandler loadFailHandler None s
                       = (Inr (), callHandler loadHandler l (pass (pass (pass s))))"
      by (auto simp: Content_load_def ls wait)
    then show ?thesis
      unfolding n thrice .

  qed
  have reqs: "filter isContentRequest
                (requests (snd (Content_load Content_contentTypes e l loadHandler loadFailHandler None s)))
              = filter isContentRequest (requests s)"
    unfolding load by (simp add: callHandler_def no_content_request_prefetches split: option.splits)
  have doc: "fst (Content_cachedDocumentForLink Content_contentTypes e l s) = Inr (Some LiveDocument)"
    by (simp add: Content_cachedDocumentForLink_def look c(2))
  show ?thesis
    using Inr c(1,2) load reqs doc by simp
qed

lemma index_parsed:
  "localPage_contentFromResponse exampleEnv None (linkTo ''/index'' (Some ''section-3''))
     (clearHashAndSearch (url (linkTo ''/index'' (Some ''section-3'')))) = Inr indexParsed"
  by (simp add: localPage_contentFromResponse_def truthy_def documentNodes_def exampleEnv_def
      exampleDocument_def metaNamed_def metaProperty_def siteSuffix_def atLineTerminator_def
      lineTerminatorSequences_def
      pageThumbnail_def attributeText_def startsWith_def defaultPageThumbnailPathnamePrefix_def
      site_def href_def trim_def whiteSpaceSequences_def replaceAll_def indexParsed_def
      indexContent_def exampleBody_def Let_def)

theorem self_page_uses_live_document_witness:
  "contentTypeForLink Content_contentTypes exampleEnv (linkTo ''/index'' (Some ''section-3''))
     = Some localPage
   \<and> pathname (url (linkTo ''/index'' (Some ''section-3''))) = pathname (location exampleEnv)
   \<and> localPage_contentFromResponse exampleEnv None (linkTo ''/index'' (Some ''section-3''))
        (clearHashAndSearch (url (linkTo ''/index'' (Some ''section-3'')))) = Inr indexParsed
   \<and> document indexContent = LiveDocument
   \<and> Content_load Content_contentTypes exampleEnv (linkTo ''/index'' (Some ''section-3''))
        None None None emptyState
       = (Inr (), emptyState\<lparr>fired := [Content_contentDidLoad (linkTo ''/index'' (Some ''section-3''))],
                             requests := [Prefetch ''https://gwern.net/doc/thumb.png''],
                             cachedContent := [''https://gwern.net/index'' \<mapsto> Loaded indexContent]\<rparr>)
   \<and> Content_load Content_contentTypes exampleEnv (linkTo ''/index'' (Some ''section-3''))
        (Some 7) None None emptyState
       = (Inr (), emptyState\<lparr>fired := replicate 3
                                        (Content_contentDidLoad (linkTo ''/index'' (Some ''section-3''))),
                             requests := replicate 3 (Prefetch ''https://gwern.net/doc/thumb.png''),
                             cachedContent := [''https://gwern.net/index'' \<mapsto> Loaded indexContent],
                             handlerCalls := [(7, linkTo ''/index'' (Some ''section-3''))]\<rparr>)"
proof -
  have path: "pathname (url (linkTo ''/index'' (Some ''section-3''))) = pathname (location exampleEnv)"
    by (simp add: example_site_simps)
  have h: "href (clearHashAndSearch (url (linkTo ''/index'' (Some ''section-3''))))
             = ''https://gwern.net/index''"
    by (simp add: href_def clearHashAndSearch_def example_site_simps site_def)
  have d: "document indexContent = LiveDocument"
    by (simp add: indexContent_def)
  have a: "Content_load Content_contentTypes exampleEnv (linkTo ''/index'' (Some ''section-3''))
        None None None emptyState
       = (Inr (), emptyState\<lparr>fired := [Content_contentDidLoad (linkTo ''/index'' (Some ''section-3''))],
                             requests := [Prefetch ''https://gwern.net/doc/thumb.png''],
                             cachedContent := [''https://gwern.net/index'' \<mapsto> Loaded indexContent]\<rparr>)"
    using self_page_uses_live_document [OF index_classified path, of None None emptyState]
    by (simp add: index_parsed indexParsed_def h emptyState_def callHandler_def)
  have b: "Content_load Content_contentTypes exampleEnv (linkTo ''/index'' (Some ''section-3''))
        (Some 7) None None emptyState
       = (Inr (), emptyState\<lparr>fired := replicate 3
                                        (Content_contentDidLoad (linkTo ''/index'' (Some ''section-3''))),
                             requests := replicate 3 (Prefetch ''https://gwern.net/doc/thumb.png''),
                             cachedContent := [''https://gwern.net/index'' \<mapsto> Loaded indexContent],
                             handlerCalls := [(7, linkTo ''/index'' (Some ''section-3''))]\<rparr>)"
    using self_page_uses_live_document [OF index_classified path, of "Some 7" None emptyState]
    by (simp add: index_parsed indexParsed_def h emptyState_def callHandler_def numeral_3_eq_3)
  show ?thesis
    using index_classified [of "Some ''section-3''"] path index_parsed d a b by simp
qed

lemma tweet_classified:
  "contentTypeForLink Content_contentTypes tweetEnv tweetLink = Some localTweetArchive"
  by (simp add: contentTypeForLink_registry localTweetArchive_matches_def originalURLForLink_def
      tweetEnv_def tweetLink_def tweetPath_def exampleEnv_def site_def startsWith_def
      statusTail_def isDigit_def lineTerminator_def)

text \<open>
  Claim C6 as stated fails for a link of another content type: on the archived page of
  a tweet, a link to that page has the location of the page as its key, and what
  \<^verbatim>\<open>Content.load\<close> caches for it is a new, empty document, not the live one.
\<close>

theorem self_link_of_other_type_is_not_live:
  "Content_contentCacheKeyForLink Content_contentTypes tweetEnv tweetLink
     = Inr (href (location tweetEnv))
   \<and> fst (Content_load Content_contentTypes tweetEnv tweetLink None None None emptyState) = Inr ()
   \<and> cachedContent (snd (Content_load Content_contentTypes tweetEnv tweetLink None None None
                            emptyState)) (href (location tweetEnv))
       = Some (Loaded (onlyDocument (Fragment [] None)))
   \<and> document (onlyDocument (Fragment [] None)) \<noteq> LiveDocument"
proof -
  have src: "Content_sourceURLsForLink Content_contentTypes tweetEnv tweetLink
               = Inr [site\<lparr>pathname := tweetPath\<rparr>]"
    by (simp add: Content_sourceURLsForLink_def tweet_classified sourceURLs_simps
        singleSourceURL_def)
       (simp add: clearHashAndSearch_def tweetLink_def site_def)
  have loc: "location tweetEnv = site\<lparr>pathname := tweetPath\<rparr>"
    by (simp add: tweetEnv_def)
  have key: "Content_contentCacheKeyForLink Content_contentTypes tweetEnv tweetLink
               = Inr (href (site\<lparr>pathname := tweetPath\<rparr>))"
    using src by (rule cacheKey_of_sources)
  have cfr: "contentFromResponse localTweetArchive tweetEnv None tweetLink (site\<lparr>pathname := tweetPath\<rparr>)
               = Inr \<lparr>parsedValue = Some (onlyDocument (Fragment [] None)),
                      parsedEvents = [], parsedRequests = []\<rparr>"
    by (simp add: localTweetArchive_def localTweetArchive_contentFromResponse_def newDocument_def)
  have "Content_load Content_contentTypes tweetEnv tweetLink None None None emptyState
          = (Inr (), emptyState\<lparr>fired := fired emptyState
                                  @ [Content_contentDidLoad tweetLink],
                                requests := requests emptyState,
                                cachedContent := (cachedContent emptyState)
                                  (href (site\<lparr>pathname := tweetPath\<rparr>)
                                     \<mapsto> Loaded (onlyDocument (Fragment [] None)))\<rparr>)"
    using processResponse_content [OF tweet_classified cfr _ key, of _ emptyState]
    by (simp add: Content_load_def loadSource_def src loc injected_def)
  then show ?thesis
    using key loc by (simp add: onlyDocument_def)
qed


section \<open>The pop-frame title of a local page\<close>

text \<open>
  Claim C8, as the code has it. For a link whose target element is found in the page
  content and lies in a section and in no footnote, the pop-frame title text is the
  page title (left out for a link to the current page), the section mark
  \<^verbatim>\<open>&#x00a7;\<close> and the text of the first element child of the nearest section, joined
  by single spaces; for the section with the id \<^verbatim>\<open>footnotes\<close> the last part is the
  fixed text \<^verbatim>\<open>Footnotes\<close>. For a link without an anchor the title text has no part
  for an element.
\<close>

theorem section_title_suffix:
  assumes "pageContentOf e page = Inr pageContent"
  shows "(\<forall>element sec heading.
            targetElementInDocument e l pageContent = Some element
            \<and> closest (\<lambda>n. hasTag ''li'' n \<and> hasClass ''footnote'' n) element = None
            \<and> closest (hasTag ''section'') element = Some sec
            \<and> (elementId sec = ''footnotes'' \<or> firstElementChild sec = Some heading)
            \<longrightarrow> map_sum id popFrameTitleText (localPage_referenceDataFromContent e page l)
                 = Inr (join '' ''
                         ((if pathname (url l) \<noteq> pathname (location e)
                           then [case title page of None \<Rightarrow> [] | Some t \<Rightarrow> t] else [])
                          @ [''&#x00a7;'',
                             if elementId sec = ''footnotes'' then ''Footnotes''
                             else textContent heading])))
         \<and> (anchorsForLink e l = []
            \<longrightarrow> map_sum id popFrameTitleText (localPage_referenceDataFromContent e page l)
                 = Inr (join '' ''
                         (if pathname (url l) \<noteq> pathname (location e)
                          then [case title page of None \<Rightarrow> [] | Some t \<Rightarrow> t] else [])))"
proof -
  have 1: "map_sum id popFrameTitleText (localPage_referenceDataFromContent e page l)
                 = Inr (join '' ''
                         ((if pathname (url l) \<noteq> pathname (location e)
                           then [case title page of None \<Rightarrow> [] | Some t \<Rightarrow> t] else [])
                          @ [''&#x00a7;'',
                             if elementId sec = ''footnotes'' then ''Footnotes''
                             else textContent heading]))"
    if "targetElementInDocument e l pageContent = Some element"
      "closest (\<lambda>n. hasTag ''li'' n \<and> hasClass ''footnote'' n) element = None"
      "closest (hasTag ''section'') element = Some sec"
      "elementId sec = ''footnotes'' \<or> firstElementChild sec = Some heading"
    for element sec heading
  proof -
    have "elementTitleParts l element
            = Inr [''&#x00a7;'', if elementId sec = ''footnotes'' then ''Footnotes''
                                 else textContent heading]"
      using that(2,3,4) by (auto simp: elementTitleParts_def)
    then show ?thesis
      using assms that(1) by (simp add: localPage_referenceDataFromContent_def)
  qed
  have 2: "map_sum id popFrameTitleText (localPage_referenceDataFromContent e page l)
                 = Inr (join '' ''
                         (if pathname (url l) \<noteq> pathname (location e)
                          then [case title page of None \<Rightarrow> [] | Some t \<Rightarrow> t] else []))"
    if "anchorsForLink e l = []"
  proof -
    have "targetElementInDocument e l pageContent = None"
      using that by (simp add: targetElementInDocument_def isAnchorLink_def)
    then show ?thesis
      using assms by (simp add: localPage_referenceDataFromContent_def)
  qed
  show ?thesis using 1 2 by blast
qed

lemma essay_pageContent: "pageContentOf exampleEnv essayContent = Inr exampleBody"
  by (simp add: pageContentOf_def essayContent_def documentNodes_def elementId_def exampleBody_def)

lemma example_anchors:
  "anchorsForLink exampleEnv (linkTo path None) = []"
  "anchorsForLink exampleEnv (linkTo ''/essay'' (Some ''para-7'')) = [''#para-7'']"
  "anchorsForLink exampleEnv (linkTo ''/essay'' (Some ''footnotes'')) = [''#footnotes'']"
  by (simp_all add: anchorsForLink_def isAnnotationLink_def exampleEnv_def linkTo_def
      url_hash_def hashAnchors_def site_def)

lemma idFromHash_example: "idFromHash exampleEnv = drop 1"
  by (simp add: exampleEnv_def)

lemma para7_target:
  "targetElementInDocument exampleEnv (linkTo ''/essay'' (Some ''para-7'')) exampleBody = Some para7"
  by (simp add: targetElementInDocument_def isAnchorLink_def example_anchors startsWith_def
      exampleBody_def elementId_def idFromHash_example example_site_simps para7_def)

theorem section_title_suffix_witness:
  "pageContentOf exampleEnv essayContent = Inr exampleBody
   \<and> targetElementInDocument exampleEnv (linkTo ''/essay'' (Some ''para-7'')) exampleBody = Some para7
   \<and> closest (\<lambda>n. hasTag ''li'' n \<and> hasClass ''footnote'' n) para7 = None
   \<and> closest (hasTag ''section'') para7 = Some (hd (snd para7))
   \<and> firstElementChild (hd (snd para7)) = Some (Element ''h1'' [] [Text ''Third section''])
   \<and> map_sum id popFrameTitleText
        (localPage_referenceDataFromContent exampleEnv essayContent (linkTo ''/essay'' (Some ''para-7'')))
       = Inr ''Essay &#x00a7; Third section''
   \<and> anchorsForLink exampleEnv (linkTo ''/essay'' None) = []
   \<and> map_sum id popFrameTitleText
        (localPage_referenceDataFromContent exampleEnv essayContent (linkTo ''/essay'' None))
       = Inr ''Essay''"
proof -
  have a: "closest (\<lambda>n. hasTag ''li'' n \<and> hasClass ''footnote'' n) para7 = None"
    by (simp add: closest_def para7_def)
  have b: "closest (hasTag ''section'') para7 = Some (hd (snd para7))"
    by (simp add: closest_def para7_def)
  have c: "firstElementChild (hd (snd para7)) = Some (Element ''h1'' [] [Text ''Third section''])"
    by (simp add: firstElementChild_def para7_def)
  have d: "elementId (hd (snd para7)) \<noteq> ''footnotes''"
    by (simp add: elementId_def para7_def)
  have t: "title essayContent = Some ''Essay''"
    by (simp add: essayContent_def)
  have p: "pathname (url (linkTo ''/essay'' frag)) \<noteq> pathname (location exampleEnv)" for frag
    by (simp add: example_site_simps)
  note th = section_title_suffix [OF essay_pageContent]
  have 1: "map_sum id popFrameTitleText
        (localPage_referenceDataFromContent exampleEnv essayContent (linkTo ''/essay'' (Some ''para-7'')))
       = Inr ''Essay &#x00a7; Third section''"
    using th [of "linkTo ''/essay'' (Some ''para-7'')", THEN conjunct1, rule_format,
              of para7 "hd (snd para7)" "Element ''h1'' [] [Text ''Third section'']"]
      para7_target a b c d t p
    by simp
  have 2: "map_sum id popFrameTitleText
        (localPage_referenceDataFromContent exampleEnv essayContent (linkTo ''/essay'' None))
       = Inr ''Essay''"
    using th [of "linkTo ''/essay'' None", THEN conjunct2] example_anchors(1) t p by simp
  show ?thesis
    using essay_pageContent para7_target a b c 1 2 example_anchors(1) by simp
qed

lemma footnotes_target:
  "targetElementInDocument exampleEnv (linkTo ''/essay'' (Some ''footnotes'')) exampleBody
     = Some (footnotesSection, [])"
  by (simp add: targetElementInDocument_def isAnchorLink_def example_anchors startsWith_def
      exampleBody_def elementId_def idFromHash_example example_site_simps footnotesSection_def)

lemma footnotes_parts:
  "elementTitleParts (linkTo ''/essay'' (Some ''footnotes'')) (footnotesSection, [])
     = Inr [''&#x00a7;'', ''Footnotes'']"
  by (simp add: elementTitleParts_def closest_def footnotesSection_def hasClass_def
      className_def asciiWhitespace_def elementId_def)

text \<open>
  Claim C8 as stated fails for the section of the footnotes: the link
  \<^verbatim>\<open>/essay#footnotes\<close> points to that section, whose first element child has the
  text \<^verbatim>\<open>Endnotes\<close>, and the title text ends with \<^verbatim>\<open>Footnotes\<close>.
\<close>

theorem footnotes_section_title_is_fixed:
  "map_option (\<lambda>element. map_option textContent (firstElementChild (fst element)))
     (targetElementInDocument exampleEnv (linkTo ''/essay'' (Some ''footnotes'')) exampleBody)
     = Some (Some ''Endnotes'')
   \<and> map_sum id popFrameTitleText
        (localPage_referenceDataFromContent exampleEnv essayContent
           (linkTo ''/essay'' (Some ''footnotes'')))
       = Inr ''Essay &#x00a7; Footnotes''"
proof -
  have h: "map_option textContent (firstElementChild footnotesSection) = Some ''Endnotes''"
    by (simp add: firstElementChild_def footnotesSection_def)
  have t: "title essayContent = Some ''Essay''"
    by (simp add: essayContent_def)
  show ?thesis
    by (simp add: localPage_referenceDataFromContent_def essay_pageContent footnotes_target
        footnotes_parts h t example_site_simps)
qed


end
